theory Spec2Isabelle
  imports Complex_Main
begin

section \<open>The training loop of train.py\<close>

text \<open>
  The development embeds the function \<open>train\<close> of \<open>src/train.py\<close>. The model, the
  optimizer, the loss criterion, the feature extractor, the two metrics and the two data
  loaders are parameters of the loop, as they are arguments of the Python function; what
  the loop itself does (accumulate, divide, compare, save, print) is written out.

  Numbers are idealised: a Python float and a scalar tensor are a \<open>real\<close>, an image
  tensor is the list of its entries. A collaborator that raises returns \<open>Inl\<close>.
\<close>

type_synonym tensor = "real list"

type_synonym batch = "tensor \<times> tensor"

datatype error =
    ZeroDivisionError
  | UnboundLocalError
  | IndexError
  | Raised string

text \<open>
  What the run leaves outside the process: the calls of \<open>save_model\<close> and
  \<open>save_output_images\<close> with the arguments that vary (the save directory, the model
  name and the device are constants of the run), and the three printed lines of an epoch.
  The last argument of \<open>SaveOutputImages\<close> tells whether the call passes \<open>True\<close> as
  its sixth argument.
\<close>

datatype ('w, 'o) event =
    SaveModel 'w 'o real real real nat
  | SaveOutputImages tensor nat bool
  | PrintEpoch nat real real real real real real

record ('w, 'o) collaborators =
  forward :: "bool \<Rightarrow> 'w \<Rightarrow> tensor \<Rightarrow> error + tensor"
  criterion :: "tensor \<Rightarrow> tensor \<Rightarrow> error + real"
  vgg :: "tensor \<Rightarrow> error + tensor"
  psnr :: "tensor \<Rightarrow> tensor \<Rightarrow> error + real"
  ssim :: "tensor \<Rightarrow> tensor \<Rightarrow> error + real"
  zero_grad :: "'o \<Rightarrow> 'o"
  backward :: "'w \<Rightarrow> tensor \<Rightarrow> tensor \<Rightarrow> 'o \<Rightarrow> 'o"
  optimizer_step :: "'o \<Rightarrow> 'w \<Rightarrow> 'o \<times> 'w"
  train_loader :: "nat \<Rightarrow> batch list"
  validation_loader :: "nat \<Rightarrow> batch list"

text \<open>
  \<open>forward m w x\<close> is \<open>model(x)\<close> with weights \<open>w\<close>, in training mode when \<open>m\<close>
  holds and in evaluation mode otherwise. \<open>'o\<close> is the state of the optimizer together
  with the gradient accumulators: \<open>backward\<close> is \<open>loss.backward()\<close> for the loss of one
  batch, \<open>optimizer_step\<close> is \<open>optimizer.step()\<close>. A loader is iterated once per epoch
  and shuffles, so it is a function of the epoch index; \<open>len\<close> of a loader is the number
  of batches it delivers.

  The local variables of \<open>train\<close>, and the trace of events so far:
\<close>

record ('w, 'o) locals =
  weights :: 'w
  opt :: 'o
  training :: bool
  outputs :: "tensor option"
  best_psnr :: real
  train_losses :: "real list"
  val_losses :: "real list"
  train_loss :: real
  train_psnr :: real
  train_ssim :: real
  val_loss :: real
  val_psnr :: real
  val_ssim :: real
  trace :: "('w, 'o) event list"

text \<open>
  An exception ends the call: the local variables are gone, the events stay. So a failing
  step returns the error with the trace at that moment.
\<close>

type_synonym ('w, 'o) outcome = "(error \<times> ('w, 'o) event list) + ('w, 'o) locals"

subsection \<open>The loss\<close>

text \<open>
  \<open>F.mse_loss\<close>: the mean of the squared differences. A tensor with a single entry is
  broadcast against the other one; other tensors of different sizes are refused. A tensor
  is the flat list of its entries, so of its shape only the number of entries is modelled,
  and the mean of no entries, which is not a number in the library, has no counterpart in
  the reals: the statements about \<open>mse_loss\<close> below are about tensors of equal size that
  have entries.
\<close>

definition mse_loss :: "tensor \<Rightarrow> tensor \<Rightarrow> error + real" where
  "mse_loss a b =
     (if length a = length b
      then Inr (sum_list (map (\<lambda>(x, y). (x - y)\<^sup>2) (zip a b)) / real (length a))
      else if length a = 1
      then Inr (sum_list (map (\<lambda>y. (hd a - y)\<^sup>2) b) / real (length b))
      else if length b = 1
      then Inr (sum_list (map (\<lambda>x. (x - hd b)\<^sup>2) a) / real (length a))
      else Inl (Raised ''RuntimeError''))"

definition perceptual_loss_weight :: real where
  "perceptual_loss_weight = 0.5"

text \<open>Lines 61 to 64 (and 87 to 90): the criterion, then the weighted feature loss.\<close>

definition composed_loss :: "('w, 'o) collaborators \<Rightarrow> tensor \<Rightarrow> tensor \<Rightarrow> error + real" where
  "composed_loss c outs targets =
     (case criterion c outs targets of
        Inl e \<Rightarrow> Inl e
      | Inr loss \<Rightarrow>
          (case vgg c outs of
             Inl e \<Rightarrow> Inl e
           | Inr fo \<Rightarrow>
               (case vgg c targets of
                  Inl e \<Rightarrow> Inl e
                | Inr ft \<Rightarrow>
                    (case mse_loss fo ft of
                       Inl e \<Rightarrow> Inl e
                     | Inr m \<Rightarrow> Inr (loss + perceptual_loss_weight * m)))))"

text \<open>The criterion that \<open>__main__\<close> passes (line 180) is \<open>nn.MSELoss()\<close>.\<close>

definition main_criterion :: "tensor \<Rightarrow> tensor \<Rightarrow> error + real" where
  "main_criterion = mse_loss"

subsection \<open>One batch\<close>

text \<open>Lines 56 to 70.\<close>

definition train_batch ::
  "('w, 'o) collaborators \<Rightarrow> ('w, 'o) locals \<Rightarrow> batch \<Rightarrow> ('w, 'o) outcome" where
  "train_batch c st b =
     (let inputs = fst b; targets = snd b;
          st1 = st\<lparr>opt := zero_grad c (opt st)\<rparr>
      in case forward c (training st1) (weights st1) inputs of
           Inl e \<Rightarrow> Inl (e, trace st1)
         | Inr outs \<Rightarrow>
             (let st2 = st1\<lparr>outputs := Some outs\<rparr>
              in case composed_loss c outs targets of
                   Inl e \<Rightarrow> Inl (e, trace st2)
                 | Inr loss \<Rightarrow>
                     (let st3 = st2\<lparr>train_loss := train_loss st2 + loss\<rparr>
                      in case psnr c outs targets of
                           Inl e \<Rightarrow> Inl (e, trace st3)
                         | Inr p \<Rightarrow>
                             (let st4 = st3\<lparr>train_psnr := train_psnr st3 + p\<rparr>
                              in case ssim c outs targets of
                                   Inl e \<Rightarrow> Inl (e, trace st4)
                                 | Inr s \<Rightarrow>
                                     (let st5 = st4\<lparr>train_ssim := train_ssim st4 + s\<rparr>;
                                          st6 = st5\<lparr>opt := backward c (weights st5) inputs targets (opt st5)\<rparr>;
                                          r = optimizer_step c (opt st6) (weights st6)
                                      in Inr (st6\<lparr>opt := fst r, weights := snd r\<rparr>))))))"

text \<open>Lines 82 to 97.\<close>

definition val_batch ::
  "('w, 'o) collaborators \<Rightarrow> nat \<Rightarrow> ('w, 'o) locals \<Rightarrow> batch \<Rightarrow> ('w, 'o) outcome" where
  "val_batch c epoch st b =
     (let inputs = fst b; targets = snd b;
          st1 = st\<lparr>opt := zero_grad c (opt st)\<rparr>
      in case forward c (training st1) (weights st1) inputs of
           Inl e \<Rightarrow> Inl (e, trace st1)
         | Inr outs \<Rightarrow>
             (let st2 = st1\<lparr>outputs := Some outs\<rparr>
              in case composed_loss c outs targets of
                   Inl e \<Rightarrow> Inl (e, trace st2)
                 | Inr loss \<Rightarrow>
                     (let st3 = st2\<lparr>val_loss := val_loss st2 + loss\<rparr>
                      in case psnr c outs targets of
                           Inl e \<Rightarrow> Inl (e, trace st3)
                         | Inr p \<Rightarrow>
                             (let st4 = st3\<lparr>val_psnr := val_psnr st3 + p\<rparr>
                              in case ssim c outs targets of
                                   Inl e \<Rightarrow> Inl (e, trace st4)
                                 | Inr s \<Rightarrow>
                                     (let st5 = st4\<lparr>val_ssim := val_ssim st4 + s\<rparr>
                                      in if (epoch + 1) mod 20 = 0
                                         then Inr (st5\<lparr>trace := trace st5 @ [SaveOutputImages outs epoch False]\<rparr>)
                                         else Inr st5)))))"

subsection \<open>The two loops over the batches\<close>

fun train_batches ::
  "('w, 'o) collaborators \<Rightarrow> ('w, 'o) locals \<Rightarrow> batch list \<Rightarrow> ('w, 'o) outcome" where
  "train_batches c st [] = Inr st"
| "train_batches c st (b # bs) =
     (case train_batch c st b of
        Inl e \<Rightarrow> Inl e
      | Inr st' \<Rightarrow> train_batches c st' bs)"

fun val_batches ::
  "('w, 'o) collaborators \<Rightarrow> nat \<Rightarrow> ('w, 'o) locals \<Rightarrow> batch list \<Rightarrow> ('w, 'o) outcome" where
  "val_batches c epoch st [] = Inr st"
| "val_batches c epoch st (b # bs) =
     (case val_batch c epoch st b of
        Inl e \<Rightarrow> Inl e
      | Inr st' \<Rightarrow> val_batches c epoch st' bs)"

subsection \<open>One epoch\<close>

text \<open>
  A float divided by \<open>len(...)\<close>: Python raises when the length is zero. The first of the
  three divisions of a pass divides a Python float (\<open>train_loss\<close>, \<open>val_loss\<close>), so with an
  empty loader it raises and the other two are not reached.
\<close>

definition py_div :: "real \<Rightarrow> nat \<Rightarrow> error + real" where
  "py_div x n = (if n = 0 then Inl ZeroDivisionError else Inr (x / real n))"

text \<open>Lines 51 to 54.\<close>

definition begin_train :: "('w, 'o) locals \<Rightarrow> ('w, 'o) locals" where
  "begin_train st = st\<lparr>train_loss := 0, train_psnr := 0, train_ssim := 0, training := True\<rparr>"

text \<open>Lines 51 to 74.\<close>

definition train_phase ::
  "('w, 'o) collaborators \<Rightarrow> nat \<Rightarrow> ('w, 'o) locals \<Rightarrow> ('w, 'o) outcome" where
  "train_phase c epoch st =
     (case train_batches c (begin_train st) (train_loader c epoch) of
        Inl e \<Rightarrow> Inl e
      | Inr s \<Rightarrow>
          (let n = length (train_loader c epoch)
           in case py_div (train_loss s) n of
                Inl e \<Rightarrow> Inl (e, trace s)
              | Inr l \<Rightarrow>
                  (case py_div (train_psnr s) n of
                     Inl e \<Rightarrow> Inl (e, trace s)
                   | Inr p \<Rightarrow>
                       (case py_div (train_ssim s) n of
                          Inl e \<Rightarrow> Inl (e, trace s)
                        | Inr q \<Rightarrow> Inr (s\<lparr>train_loss := l, train_psnr := p, train_ssim := q\<rparr>)))))"

text \<open>Lines 77 to 80.\<close>

definition begin_validation :: "('w, 'o) locals \<Rightarrow> ('w, 'o) locals" where
  "begin_validation st = st\<lparr>val_loss := 0, val_psnr := 0, val_ssim := 0, training := False\<rparr>"

text \<open>Lines 77 to 101.\<close>

definition validation_phase ::
  "('w, 'o) collaborators \<Rightarrow> nat \<Rightarrow> ('w, 'o) locals \<Rightarrow> ('w, 'o) outcome" where
  "validation_phase c epoch st =
     (case val_batches c epoch (begin_validation st) (validation_loader c epoch) of
        Inl e \<Rightarrow> Inl e
      | Inr s \<Rightarrow>
          (let n = length (validation_loader c epoch)
           in case py_div (val_loss s) n of
                Inl e \<Rightarrow> Inl (e, trace s)
              | Inr l \<Rightarrow>
                  (case py_div (val_psnr s) n of
                     Inl e \<Rightarrow> Inl (e, trace s)
                   | Inr p \<Rightarrow>
                       (case py_div (val_ssim s) n of
                          Inl e \<Rightarrow> Inl (e, trace s)
                        | Inr q \<Rightarrow> Inr (s\<lparr>val_loss := l, val_psnr := p, val_ssim := q\<rparr>)))))"

text \<open>
  Lines 103 to 106. Nothing here assigns \<open>best_psnr\<close>. \<open>outputs\<close> is the variable the
  two loops over the batches assign; reading it while it is unbound raises.
\<close>

definition checkpoint_policy :: "nat \<Rightarrow> ('w, 'o) locals \<Rightarrow> ('w, 'o) outcome" where
  "checkpoint_policy epoch st =
     (if val_psnr st > best_psnr st
      then (let st1 = st\<lparr>trace := trace st @
                       [SaveModel (weights st) (opt st) (val_loss st) (val_psnr st) (val_ssim st) epoch]\<rparr>
            in case outputs st1 of
                 None \<Rightarrow> Inl (UnboundLocalError, trace st1)
               | Some outs \<Rightarrow> Inr (st1\<lparr>trace := trace st1 @ [SaveOutputImages outs epoch True]\<rparr>))
      else Inr st)"

text \<open>Lines 109 to 117. An index outside a numpy array raises.\<close>

definition record_epoch :: "nat \<Rightarrow> ('w, 'o) locals \<Rightarrow> ('w, 'o) outcome" where
  "record_epoch epoch st =
     (if epoch < length (train_losses st)
      then (let st1 = st\<lparr>train_losses := (train_losses st)[epoch := train_loss st]\<rparr>
            in if epoch < length (val_losses st1)
               then (let st2 = st1\<lparr>val_losses := (val_losses st1)[epoch := val_loss st1]\<rparr>
                     in Inr (st2\<lparr>trace := trace st2 @
                               [PrintEpoch (epoch + 1) (train_loss st2) (train_psnr st2) (train_ssim st2)
                                  (val_loss st2) (val_psnr st2) (val_ssim st2)]\<rparr>))
               else Inl (IndexError, trace st1))
      else Inl (IndexError, trace st))"

text \<open>The body of the loop over the epochs, lines 51 to 117.\<close>

definition epoch_body ::
  "('w, 'o) collaborators \<Rightarrow> nat \<Rightarrow> ('w, 'o) locals \<Rightarrow> ('w, 'o) outcome" where
  "epoch_body c epoch st =
     (case train_phase c epoch st of
        Inl e \<Rightarrow> Inl e
      | Inr s1 \<Rightarrow>
          (case validation_phase c epoch s1 of
             Inl e \<Rightarrow> Inl e
           | Inr s2 \<Rightarrow>
               (case checkpoint_policy epoch s2 of
                  Inl e \<Rightarrow> Inl e
                | Inr s3 \<Rightarrow> record_epoch epoch s3)))"

subsection \<open>The run\<close>

fun run_epochs ::
  "('w, 'o) collaborators \<Rightarrow> ('w, 'o) locals \<Rightarrow> nat list \<Rightarrow> ('w, 'o) outcome" where
  "run_epochs c st [] = Inr st"
| "run_epochs c st (epoch # es) =
     (case epoch_body c epoch st of
        Inl e \<Rightarrow> Inl e
      | Inr st' \<Rightarrow> run_epochs c st' es)"

text \<open>
  Lines 40 to 46: the histories are \<open>np.zeros(n_epoch)\<close>, \<open>best_psnr\<close> is \<open>0.0\<close>. A new
  module is in training mode; the variables the loop assigns before it reads them start
  at zero here, and \<open>outputs\<close> is unbound.
\<close>

definition init_locals :: "'w \<Rightarrow> 'o \<Rightarrow> nat \<Rightarrow> ('w, 'o) locals" where
  "init_locals model optimizer n_epoch =
     \<lparr>weights = model, opt = optimizer, training = True, outputs = None, best_psnr = 0,
      train_losses = replicate n_epoch 0, val_losses = replicate n_epoch 0,
      train_loss = 0, train_psnr = 0, train_ssim = 0,
      val_loss = 0, val_psnr = 0, val_ssim = 0, trace = []\<rparr>"

text \<open>\<open>for epoch in range(n_epoch)\<close>; the elapsed time printed at the end is left out.\<close>

definition train :: "('w, 'o) collaborators \<Rightarrow> 'w \<Rightarrow> 'o \<Rightarrow> nat \<Rightarrow> ('w, 'o) outcome" where
  "train c model optimizer n_epoch = run_epochs c (init_locals model optimizer n_epoch) [0..<n_epoch]"

subsection \<open>Per-batch values and what a trace records\<close>

text \<open>
  The values one batch contributes: the outputs of the model, the composed loss and the two
  metrics, in the order the loop asks for them. The two loops differ only in what they do
  with these values.
\<close>

record batch_values =
  b_outputs :: tensor
  b_loss :: real
  b_psnr :: real
  b_ssim :: real

definition batch_stats ::
  "('w, 'o) collaborators \<Rightarrow> bool \<Rightarrow> 'w \<Rightarrow> batch \<Rightarrow> error + batch_values" where
  "batch_stats c m w b =
     (case forward c m w (fst b) of
        Inl e \<Rightarrow> Inl e
      | Inr outs \<Rightarrow>
          (case composed_loss c outs (snd b) of
             Inl e \<Rightarrow> Inl e
           | Inr l \<Rightarrow>
               (case psnr c outs (snd b) of
                  Inl e \<Rightarrow> Inl e
                | Inr p \<Rightarrow>
                    (case ssim c outs (snd b) of
                       Inl e \<Rightarrow> Inl e
                     | Inr s \<Rightarrow> Inr \<lparr>b_outputs = outs, b_loss = l, b_psnr = p, b_ssim = s\<rparr>))))"

text \<open>What one training batch does to the optimizer and the weights (lines 58, 69, 70).\<close>

definition sgd_step :: "('w, 'o) collaborators \<Rightarrow> 'o \<times> 'w \<Rightarrow> batch \<Rightarrow> 'o \<times> 'w" where
  "sgd_step c ow b =
     optimizer_step c (backward c (snd ow) (fst b) (snd b) (zero_grad c (fst ow))) (snd ow)"

text \<open>
  Readings of a trace: the image writes without and with the best flag, the checkpoints
  (epoch index and validation PSNR passed), and the printed validation PSNR of each epoch
  (with the epoch number as printed).
\<close>

definition periodic_images :: "('w, 'o) event list \<Rightarrow> (nat \<times> tensor) list" where
  "periodic_images tr =
     concat (map (\<lambda>ev. case ev of SaveOutputImages outs e is_best \<Rightarrow> (if is_best then [] else [(e, outs)])
                        | _ \<Rightarrow> []) tr)"

definition best_images :: "('w, 'o) event list \<Rightarrow> (nat \<times> tensor) list" where
  "best_images tr =
     concat (map (\<lambda>ev. case ev of SaveOutputImages outs e is_best \<Rightarrow> (if is_best then [(e, outs)] else [])
                        | _ \<Rightarrow> []) tr)"

definition checkpoints :: "('w, 'o) event list \<Rightarrow> (nat \<times> real) list" where
  "checkpoints tr =
     concat (map (\<lambda>ev. case ev of SaveModel w ostate vl vp vs e \<Rightarrow> [(e, vp)] | _ \<Rightarrow> []) tr)"

definition printed :: "('w, 'o) event list \<Rightarrow> (nat \<times> real) list" where
  "printed tr =
     concat (map (\<lambda>ev. case ev of PrintEpoch n a1 a2 a3 vl vp vs \<Rightarrow> [(n, vp)] | _ \<Rightarrow> []) tr)"

text \<open>What a run leaves, whether it returns or raises, and the local variables when it returns.\<close>

definition final_trace :: "('w, 'o) outcome \<Rightarrow> ('w, 'o) event list" where
  "final_trace r = (case r of Inl (e, tr) \<Rightarrow> tr | Inr st \<Rightarrow> trace st)"

definition final_locals :: "('w, 'o) outcome \<Rightarrow> ('w, 'o) locals option" where
  "final_locals r = (case r of Inl e \<Rightarrow> None | Inr st \<Rightarrow> Some st)"

subsection \<open>A small instance\<close>

text \<open>
  Collaborators that never raise, for the examples: the model returns its input, the PSNR
  of a batch is the sum of the outputs, every epoch has one training batch and one
  validation batch, and the validation PSNR is 20 in the first epoch and 18 afterwards.
\<close>

definition demo :: "(real, nat) collaborators" where
  "demo =
     \<lparr>forward = (\<lambda>m w x. Inr x),
      criterion = main_criterion,
      vgg = (\<lambda>x. Inr x),
      psnr = (\<lambda>outs targets. Inr (sum_list outs)),
      ssim = (\<lambda>outs targets. Inr 1),
      zero_grad = (\<lambda>g. 0),
      backward = (\<lambda>w x t g. Suc g),
      optimizer_step = (\<lambda>g w. (g, w + real g)),
      train_loader = (\<lambda>e. [([1], [1])]),
      validation_loader = (\<lambda>e. if e = 0 then [([20], [20])] else [([18], [18])])\<rparr>"

definition demo_locals :: "nat \<Rightarrow> (real, nat) locals" where
  "demo_locals n = init_locals 0 0 n"

text \<open>
  Variants of the instance: a loader that delivers nothing, two validation batches per
  epoch, three training and two validation batches with values that all differ, and a
  model that raises on the validation input of the second epoch.
\<close>

definition demo_no_training_data :: "(real, nat) collaborators" where
  "demo_no_training_data = demo\<lparr>train_loader := (\<lambda>e. [])\<rparr>"

definition demo_no_validation_data :: "(real, nat) collaborators" where
  "demo_no_validation_data = demo\<lparr>validation_loader := (\<lambda>e. [])\<rparr>"

definition demo_two_batches :: "(real, nat) collaborators" where
  "demo_two_batches = demo\<lparr>validation_loader := (\<lambda>e. [([3], [3]), ([4], [4])])\<rparr>"

definition demo_many_batches :: "(real, nat) collaborators" where
  "demo_many_batches =
     demo\<lparr>ssim := (\<lambda>outs targets. Inr (sum_list targets)),
          train_loader := (\<lambda>e. [([1], [0]), ([2], [1]), ([3], [5])]),
          validation_loader := (\<lambda>e. [([3], [1]), ([5], [2])])\<rparr>"

definition demo_failing :: "(real, nat) collaborators" where
  "demo_failing =
     demo\<lparr>forward := (\<lambda>m w x. if x = [18] then Inl (Raised ''out of memory'') else Inr x)\<rparr>"

section \<open>Properties of the loops\<close>

lemmas eval_defs = demo_locals_def train_def init_locals_def epoch_body_def train_phase_def validation_phase_def
  checkpoint_policy_def record_epoch_def begin_train_def begin_validation_def py_div_def
  train_batch_def val_batch_def composed_loss_def mse_loss_def main_criterion_def
  perceptual_loss_weight_def Let_def

lemma py_div_zero: "py_div x 0 = Inl ZeroDivisionError"
  by (simp add: py_div_def)

lemma train_batch_eq:
  "train_batch c st b =
     (case batch_stats c (training st) (weights st) b of
        Inl e \<Rightarrow> Inl (e, trace st)
      | Inr v \<Rightarrow>
          Inr (st\<lparr>opt := fst (sgd_step c (opt st, weights st) b),
                  weights := snd (sgd_step c (opt st, weights st) b),
                  outputs := Some (b_outputs v),
                  train_loss := train_loss st + b_loss v,
                  train_psnr := train_psnr st + b_psnr v,
                  train_ssim := train_ssim st + b_ssim v\<rparr>))"
  by (auto simp: train_batch_def batch_stats_def sgd_step_def Let_def split: sum.splits)

lemma val_batch_eq:
  "val_batch c epoch st b =
     (case batch_stats c (training st) (weights st) b of
        Inl e \<Rightarrow> Inl (e, trace st)
      | Inr v \<Rightarrow>
          Inr (st\<lparr>opt := zero_grad c (opt st),
                  outputs := Some (b_outputs v),
                  val_loss := val_loss st + b_loss v,
                  val_psnr := val_psnr st + b_psnr v,
                  val_ssim := val_ssim st + b_ssim v,
                  trace := trace st @
                    (if (epoch + 1) mod 20 = 0 then [SaveOutputImages (b_outputs v) epoch False] else [])\<rparr>))"
  by (auto simp: val_batch_def batch_stats_def Let_def split: sum.splits)

lemma train_batches_frame:
  "train_batches c st bs = Inr st' \<Longrightarrow>
     trace st' = trace st \<and> best_psnr st' = best_psnr st \<and> training st' = training st \<and>
     train_losses st' = train_losses st \<and> val_losses st' = val_losses st \<and>
     val_loss st' = val_loss st \<and> val_psnr st' = val_psnr st \<and> val_ssim st' = val_ssim st"
  by (induction bs arbitrary: st) (auto simp: train_batch_eq split: sum.splits)

lemma train_batches_fail:
  "train_batches c st bs = Inl (x, tr) \<Longrightarrow> tr = trace st"
proof (induction bs arbitrary: st)
  case Nil
  then show ?case by simp
next
  case (Cons b bs)
  show ?case
  proof (cases "train_batch c st b")
    case (Inl e)
    with Cons.prems show ?thesis
      by (auto simp: train_batch_eq split: sum.splits)
  next
    case (Inr s)
    with Cons.prems have "train_batches c s bs = Inl (x, tr)" by simp
    then have "tr = trace s" by (rule Cons.IH)
    moreover from Inr have "trace s = trace st"
      by (auto simp: train_batch_eq split: sum.splits)
    ultimately show ?thesis by simp
  qed
qed

lemma train_batches_weights:
  "train_batches c st bs = Inr st' \<Longrightarrow>
     (opt st', weights st') = foldl (sgd_step c) (opt st, weights st) bs"
  by (induction bs arbitrary: st) (auto simp: train_batch_eq split: sum.splits)

lemma train_batches_append:
  "train_batches c st (xs @ ys) =
     (case train_batches c st xs of Inl e \<Rightarrow> Inl e | Inr s \<Rightarrow> train_batches c s ys)"
  by (induction xs arbitrary: st) (auto split: sum.splits)

lemma val_batches_append:
  "val_batches c epoch st (xs @ ys) =
     (case val_batches c epoch st xs of Inl e \<Rightarrow> Inl e | Inr s \<Rightarrow> val_batches c epoch s ys)"
  by (induction xs arbitrary: st) (auto split: sum.splits)

lemma run_epochs_append:
  "run_epochs c st (xs @ ys) =
     (case run_epochs c st xs of Inl e \<Rightarrow> Inl e | Inr s \<Rightarrow> run_epochs c s ys)"
  by (induction xs arbitrary: st) (auto split: sum.splits)

lemma train_batches_sums:
  "train_batches c st bs = Inr st' \<Longrightarrow>
     \<exists>vals. length vals = length bs \<and>
       (\<forall>i<length bs. \<exists>s. train_batches c st (take i bs) = Inr s \<and>
           batch_stats c (training st) (weights s) (bs ! i) = Inr (vals ! i)) \<and>
       train_loss st' = train_loss st + sum_list (map b_loss vals) \<and>
       train_psnr st' = train_psnr st + sum_list (map b_psnr vals) \<and>
       train_ssim st' = train_ssim st + sum_list (map b_ssim vals)"
proof (induction bs arbitrary: st)
  case Nil
  then show ?case by simp
next
  case (Cons b bs)
  from Cons.prems obtain v s1 where
    v: "batch_stats c (training st) (weights st) b = Inr v" and
    s1: "train_batch c st b = Inr s1" and
    rest: "train_batches c s1 bs = Inr st'" and
    tr: "training s1 = training st" and
    l: "train_loss s1 = train_loss st + b_loss v" and
    p: "train_psnr s1 = train_psnr st + b_psnr v" and
    q: "train_ssim s1 = train_ssim st + b_ssim v"
    by (auto simp: train_batch_eq split: sum.splits)
  from Cons.IH [OF rest] obtain vals where
    len: "length vals = length bs" and
    each: "\<forall>i<length bs. \<exists>s. train_batches c s1 (take i bs) = Inr s \<and>
           batch_stats c (training s1) (weights s) (bs ! i) = Inr (vals ! i)" and
    sums: "train_loss st' = train_loss s1 + sum_list (map b_loss vals)"
          "train_psnr st' = train_psnr s1 + sum_list (map b_psnr vals)"
          "train_ssim st' = train_ssim s1 + sum_list (map b_ssim vals)"
    by blast
  have "\<forall>i<length (b # bs). \<exists>s. train_batches c st (take i (b # bs)) = Inr s \<and>
           batch_stats c (training st) (weights s) ((b # bs) ! i) = Inr ((v # vals) ! i)"
  proof (intro allI impI)
    fix i assume i: "i < length (b # bs)"
    show "\<exists>s. train_batches c st (take i (b # bs)) = Inr s \<and>
           batch_stats c (training st) (weights s) ((b # bs) ! i) = Inr ((v # vals) ! i)"
    proof (cases i)
      case 0
      with v show ?thesis by simp
    next
      case (Suc j)
      with i have "j < length bs" by simp
      with each obtain s where "train_batches c s1 (take j bs) = Inr s"
        "batch_stats c (training s1) (weights s) (bs ! j) = Inr (vals ! j)" by blast
      with Suc s1 tr show ?thesis by simp
    qed
  qed
  with len sums l p q show ?case
    by (intro exI [of _ "v # vals"]) simp
qed

lemma val_batches_frame:
  "val_batches c epoch st bs = Inr st' \<Longrightarrow>
     weights st' = weights st \<and> best_psnr st' = best_psnr st \<and> training st' = training st \<and>
     train_losses st' = train_losses st \<and> val_losses st' = val_losses st \<and>
     train_loss st' = train_loss st \<and> train_psnr st' = train_psnr st \<and> train_ssim st' = train_ssim st"
  by (induction bs arbitrary: st) (auto simp: val_batch_eq split: sum.splits)

lemma val_batches_opt:
  "val_batches c epoch st bs = Inr st' \<Longrightarrow> opt st' = (zero_grad c ^^ length bs) (opt st)"
  by (induction bs arbitrary: st) (auto simp: val_batch_eq funpow_swap1 split: sum.splits)

lemma val_batches_values:
  "val_batches c epoch st bs = Inr st' \<Longrightarrow>
     \<exists>vals. map (batch_stats c (training st) (weights st)) bs = map Inr vals \<and>
       val_loss st' = val_loss st + sum_list (map b_loss vals) \<and>
       val_psnr st' = val_psnr st + sum_list (map b_psnr vals) \<and>
       val_ssim st' = val_ssim st + sum_list (map b_ssim vals) \<and>
       trace st' = trace st @
         (if (epoch + 1) mod 20 = 0 then map (\<lambda>v. SaveOutputImages (b_outputs v) epoch False) vals else []) \<and>
       outputs st' = (if bs = [] then outputs st else Some (b_outputs (last vals)))"
proof (induction bs arbitrary: st)
  case Nil
  then show ?case by simp
next
  case (Cons b bs)
  from Cons.prems obtain v s1 where
    v: "batch_stats c (training st) (weights st) b = Inr v" and
    rest: "val_batches c epoch s1 bs = Inr st'" and
    s1: "training s1 = training st" "weights s1 = weights st"
        "val_loss s1 = val_loss st + b_loss v"
        "val_psnr s1 = val_psnr st + b_psnr v"
        "val_ssim s1 = val_ssim st + b_ssim v"
        "trace s1 = trace st @
           (if (epoch + 1) mod 20 = 0 then [SaveOutputImages (b_outputs v) epoch False] else [])"
        "outputs s1 = Some (b_outputs v)"
    by (auto simp: val_batch_eq split: sum.splits)
  from Cons.IH [OF rest] obtain vals where
    vals: "map (batch_stats c (training s1) (weights s1)) bs = map Inr vals"
       "val_loss st' = val_loss s1 + sum_list (map b_loss vals)"
       "val_psnr st' = val_psnr s1 + sum_list (map b_psnr vals)"
       "val_ssim st' = val_ssim s1 + sum_list (map b_ssim vals)"
       "trace st' = trace s1 @
         (if (epoch + 1) mod 20 = 0 then map (\<lambda>v. SaveOutputImages (b_outputs v) epoch False) vals else [])"
       "outputs st' = (if bs = [] then outputs s1 else Some (b_outputs (last vals)))"
    by blast
  from vals(1) have len: "length vals = length bs"
    by (metis length_map)
  show ?case
  proof (intro exI [of _ "v # vals"] conjI)
    show "map (batch_stats c (training st) (weights st)) (b # bs) = map Inr (v # vals)"
      using v vals(1) s1 by simp
    show "val_loss st' = val_loss st + sum_list (map b_loss (v # vals))"
      using vals(2) s1 by simp
    show "val_psnr st' = val_psnr st + sum_list (map b_psnr (v # vals))"
      using vals(3) s1 by simp
    show "val_ssim st' = val_ssim st + sum_list (map b_ssim (v # vals))"
      using vals(4) s1 by simp
    show "trace st' = trace st @
         (if (epoch + 1) mod 20 = 0
          then map (\<lambda>v. SaveOutputImages (b_outputs v) epoch False) (v # vals) else [])"
      using vals(5) s1 by simp
    show "outputs st' = (if b # bs = [] then outputs st else Some (b_outputs (last (v # vals))))"
      using vals(6) s1 len by (cases bs) auto
  qed
qed

lemma val_batches_fail:
  "val_batches c epoch st bs = Inl (x, tr) \<Longrightarrow>
     \<exists>imgs. tr = trace st @ map (\<lambda>outs. SaveOutputImages outs epoch False) imgs"
proof (induction bs arbitrary: st)
  case Nil
  then show ?case by simp
next
  case (Cons b bs)
  show ?case
  proof (cases "val_batch c epoch st b")
    case (Inl e)
    with Cons.prems have "tr = trace st"
      by (auto simp: val_batch_eq split: sum.splits)
    then show ?thesis by (intro exI [of _ "[]"]) simp
  next
    case (Inr s)
    with Cons.prems have "val_batches c epoch s bs = Inl (x, tr)" by simp
    from Cons.IH [OF this] obtain imgs where
      imgs: "tr = trace s @ map (\<lambda>outs. SaveOutputImages outs epoch False) imgs" by blast
    have "\<exists>pre. trace s = trace st @ map (\<lambda>outs. SaveOutputImages outs epoch False) pre"
    proof (cases "(epoch + 1) mod 20 = 0")
      case True
      with Inr have "\<exists>outs. trace s = trace st @ [SaveOutputImages outs epoch False]"
        by (auto simp: val_batch_eq split: sum.splits)
      then obtain outs where "trace s = trace st @ [SaveOutputImages outs epoch False]"
        by blast
      then have "trace s = trace st @ map (\<lambda>outs. SaveOutputImages outs epoch False) [outs]"
        by simp
      then show ?thesis by blast
    next
      case False
      with Inr have "trace s = trace st"
        by (auto simp: val_batch_eq split: sum.splits)
      then have "trace s = trace st @ map (\<lambda>outs. SaveOutputImages outs epoch False) []"
        by simp
      then show ?thesis by blast
    qed
    then obtain pre where
      "trace s = trace st @ map (\<lambda>outs. SaveOutputImages outs epoch False) pre" by blast
    with imgs have "tr = trace st @ map (\<lambda>outs. SaveOutputImages outs epoch False) (pre @ imgs)"
      by simp
    then show ?thesis by blast
  qed
qed

lemma periodic_images_append:
  "periodic_images (xs @ ys) = periodic_images xs @ periodic_images ys"
  by (simp add: periodic_images_def)

lemma best_images_append: "best_images (xs @ ys) = best_images xs @ best_images ys"
  by (simp add: best_images_def)

lemma checkpoints_append: "checkpoints (xs @ ys) = checkpoints xs @ checkpoints ys"
  by (simp add: checkpoints_def)

lemma printed_append: "printed (xs @ ys) = printed xs @ printed ys"
  by (simp add: printed_def)

lemma train_phase_Inr:
  assumes "train_phase c epoch st = Inr s1"
  shows "\<exists>s. train_batches c (begin_train st) (train_loader c epoch) = Inr s \<and>
           train_loader c epoch \<noteq> [] \<and>
           s1 = s\<lparr>train_loss := train_loss s / real (length (train_loader c epoch)),
                  train_psnr := train_psnr s / real (length (train_loader c epoch)),
                  train_ssim := train_ssim s / real (length (train_loader c epoch))\<rparr>"
  using assms
  by (auto simp: train_phase_def py_div_def Let_def split: sum.splits if_splits)

lemma train_phase_Inl:
  assumes "train_phase c epoch st = Inl (x, tr)"
  shows "tr = trace st"
proof (cases "train_batches c (begin_train st) (train_loader c epoch)")
  case (Inl e)
  with assms have "train_batches c (begin_train st) (train_loader c epoch) = Inl (x, tr)"
    by (simp add: train_phase_def)
  then have "tr = trace (begin_train st)" by (rule train_batches_fail)
  then show ?thesis by (simp add: begin_train_def)
next
  case (Inr s)
  then have "trace s = trace (begin_train st)" by (simp add: train_batches_frame)
  with Inr assms show ?thesis
    by (auto simp: train_phase_def py_div_def Let_def begin_train_def split: sum.splits if_splits)
qed

lemma validation_phase_Inr:
  assumes "validation_phase c epoch st = Inr s2"
  shows "\<exists>s. val_batches c epoch (begin_validation st) (validation_loader c epoch) = Inr s \<and>
           validation_loader c epoch \<noteq> [] \<and>
           s2 = s\<lparr>val_loss := val_loss s / real (length (validation_loader c epoch)),
                  val_psnr := val_psnr s / real (length (validation_loader c epoch)),
                  val_ssim := val_ssim s / real (length (validation_loader c epoch))\<rparr>"
  using assms
  by (auto simp: validation_phase_def py_div_def Let_def split: sum.splits if_splits)

lemma validation_phase_Inl:
  assumes "validation_phase c epoch st = Inl (x, tr)"
  shows "\<exists>imgs. tr = trace st @ map (\<lambda>outs. SaveOutputImages outs epoch False) imgs"
proof (cases "val_batches c epoch (begin_validation st) (validation_loader c epoch)")
  case (Inl e)
  with assms have "val_batches c epoch (begin_validation st) (validation_loader c epoch) = Inl (x, tr)"
    by (simp add: validation_phase_def)
  from val_batches_fail [OF this] show ?thesis by (simp add: begin_validation_def)
next
  case (Inr s)
  from val_batches_values [OF Inr] obtain vals :: "batch_values list" where
    "trace s = trace (begin_validation st) @
       (if (epoch + 1) mod 20 = 0 then map (\<lambda>v. SaveOutputImages (b_outputs v) epoch False) vals else [])"
    by blast
  then have "trace s = trace st @ map (\<lambda>outs. SaveOutputImages outs epoch False)
       (if (epoch + 1) mod 20 = 0 then map b_outputs vals else [])"
    by (simp add: begin_validation_def comp_def)
  moreover from Inr assms have "tr = trace s"
    by (auto simp: validation_phase_def py_div_def Let_def split: sum.splits if_splits)
  ultimately show ?thesis by blast
qed

lemma epoch_body_Inr:
  assumes "epoch_body c epoch st = Inr st'"
  shows "\<exists>s1 s2 s3. train_phase c epoch st = Inr s1 \<and> validation_phase c epoch s1 = Inr s2 \<and>
           checkpoint_policy epoch s2 = Inr s3 \<and> record_epoch epoch s3 = Inr st'"
  using assms by (auto simp: epoch_body_def split: sum.splits)

lemma checkpoint_policy_frame:
  assumes "checkpoint_policy epoch st = Inr s"
  shows "weights s = weights st \<and> opt s = opt st \<and> best_psnr s = best_psnr st \<and>
         train_losses s = train_losses st \<and> val_losses s = val_losses st \<and>
         train_loss s = train_loss st \<and> train_psnr s = train_psnr st \<and> train_ssim s = train_ssim st \<and>
         val_loss s = val_loss st \<and> val_psnr s = val_psnr st \<and> val_ssim s = val_ssim st \<and>
         outputs s = outputs st \<and> training s = training st"
  using assms by (auto simp: checkpoint_policy_def Let_def split: if_splits option.splits)

lemma record_epoch_frame:
  assumes "record_epoch epoch st = Inr s"
  shows "weights s = weights st \<and> opt s = opt st \<and> best_psnr s = best_psnr st \<and>
         train_loss s = train_loss st \<and> train_psnr s = train_psnr st \<and> train_ssim s = train_ssim st \<and>
         val_loss s = val_loss st \<and> val_psnr s = val_psnr st \<and> val_ssim s = val_ssim st \<and>
         outputs s = outputs st \<and> training s = training st \<and>
         train_losses s = (train_losses st)[epoch := train_loss st] \<and>
         val_losses s = (val_losses st)[epoch := val_loss st] \<and>
         epoch < length (train_losses st) \<and> epoch < length (val_losses st) \<and>
         trace s = trace st @ [PrintEpoch (epoch + 1) (train_loss st) (train_psnr st) (train_ssim st)
                                 (val_loss st) (val_psnr st) (val_ssim st)]"
  using assms by (auto simp: record_epoch_def Let_def split: if_splits)

lemma epoch_body_summary:
  assumes "epoch_body c epoch st = Inr st'"
  shows "\<exists>t s1 vv.
     train_batches c (begin_train st) (train_loader c epoch) = Inr t \<and>
     train_loader c epoch \<noteq> [] \<and>
     train_phase c epoch st = Inr s1 \<and>
     train_loss st' = train_loss t / real (length (train_loader c epoch)) \<and>
     train_psnr st' = train_psnr t / real (length (train_loader c epoch)) \<and>
     train_ssim st' = train_ssim t / real (length (train_loader c epoch)) \<and>
     weights st' = weights s1 \<and>
     validation_loader c epoch \<noteq> [] \<and>
     map (batch_stats c False (weights s1)) (validation_loader c epoch) = map Inr vv \<and>
     val_loss st' = sum_list (map b_loss vv) / real (length (validation_loader c epoch)) \<and>
     val_psnr st' = sum_list (map b_psnr vv) / real (length (validation_loader c epoch)) \<and>
     val_ssim st' = sum_list (map b_ssim vv) / real (length (validation_loader c epoch)) \<and>
     best_psnr st' = best_psnr st \<and>
     outputs st' = Some (b_outputs (last vv)) \<and>
     trace st' = trace st @
       (if (epoch + 1) mod 20 = 0
        then map (\<lambda>v. SaveOutputImages (b_outputs v) epoch False) vv else []) @
       (if val_psnr st' > best_psnr st
        then [SaveModel (weights st') (opt st') (val_loss st') (val_psnr st') (val_ssim st') epoch,
              SaveOutputImages (b_outputs (last vv)) epoch True]
        else []) @
       [PrintEpoch (epoch + 1) (train_loss st') (train_psnr st') (train_ssim st')
          (val_loss st') (val_psnr st') (val_ssim st')] \<and>
     epoch < length (train_losses st) \<and> epoch < length (val_losses st) \<and>
     train_losses st' = (train_losses st)[epoch := train_loss st'] \<and>
     val_losses st' = (val_losses st)[epoch := val_loss st']"
proof -
  from epoch_body_Inr [OF assms] obtain s1 s2 s3 where
    p1: "train_phase c epoch st = Inr s1" and
    p2: "validation_phase c epoch s1 = Inr s2" and
    p3: "checkpoint_policy epoch s2 = Inr s3" and
    p4: "record_epoch epoch s3 = Inr st'" by blast
  let ?n = "real (length (train_loader c epoch))"
  let ?m = "real (length (validation_loader c epoch))"
  from train_phase_Inr [OF p1] obtain t where
    t: "train_batches c (begin_train st) (train_loader c epoch) = Inr t" and
    ne1: "train_loader c epoch \<noteq> []" and
    s1: "s1 = t\<lparr>train_loss := train_loss t / ?n, train_psnr := train_psnr t / ?n,
                 train_ssim := train_ssim t / ?n\<rparr>" by blast
  note ft = train_batches_frame [OF t]
  from validation_phase_Inr [OF p2] obtain u where
    u: "val_batches c epoch (begin_validation s1) (validation_loader c epoch) = Inr u" and
    ne2: "validation_loader c epoch \<noteq> []" and
    s2: "s2 = u\<lparr>val_loss := val_loss u / ?m, val_psnr := val_psnr u / ?m,
                 val_ssim := val_ssim u / ?m\<rparr>" by blast
  note fu = val_batches_frame [OF u]
  from val_batches_values [OF u] obtain vv where
    vv: "map (batch_stats c (training (begin_validation s1)) (weights (begin_validation s1)))
           (validation_loader c epoch) = map Inr vv"
        "val_loss u = val_loss (begin_validation s1) + sum_list (map b_loss vv)"
        "val_psnr u = val_psnr (begin_validation s1) + sum_list (map b_psnr vv)"
        "val_ssim u = val_ssim (begin_validation s1) + sum_list (map b_ssim vv)"
        "trace u = trace (begin_validation s1) @
           (if (epoch + 1) mod 20 = 0
            then map (\<lambda>v. SaveOutputImages (b_outputs v) epoch False) vv else [])"
        "outputs u = (if validation_loader c epoch = [] then outputs (begin_validation s1)
                      else Some (b_outputs (last vv)))"
    by blast
  note f3 = checkpoint_policy_frame [OF p3]
  note f4 = record_epoch_frame [OF p4]
  have bv: "training (begin_validation s1) = False" "weights (begin_validation s1) = weights s1"
    "val_loss (begin_validation s1) = 0" "val_psnr (begin_validation s1) = 0"
    "val_ssim (begin_validation s1) = 0" "trace (begin_validation s1) = trace s1"
    "best_psnr (begin_validation s1) = best_psnr s1"
    "train_loss (begin_validation s1) = train_loss s1"
    "train_psnr (begin_validation s1) = train_psnr s1"
    "train_ssim (begin_validation s1) = train_ssim s1"
    "train_losses (begin_validation s1) = train_losses s1"
    "val_losses (begin_validation s1) = val_losses s1"
    by (simp_all add: begin_validation_def)
  have bt: "trace (begin_train st) = trace st" "best_psnr (begin_train st) = best_psnr st"
    "train_losses (begin_train st) = train_losses st" "val_losses (begin_train st) = val_losses st"
    by (simp_all add: begin_train_def)
  have tr1: "trace s1 = trace st" using s1 ft bt by simp
  have out2: "outputs s2 = Some (b_outputs (last vv))" using s2 vv(6) ne2 by simp
  have tr2: "trace s2 = trace st @
       (if (epoch + 1) mod 20 = 0
        then map (\<lambda>v. SaveOutputImages (b_outputs v) epoch False) vv else [])"
    using s2 vv(5) bv tr1 by simp
  have best2: "best_psnr s2 = best_psnr st" using s2 fu bv s1 ft bt by simp
  have tr3: "trace s3 = trace s2 @
       (if val_psnr s2 > best_psnr s2
        then [SaveModel (weights s2) (opt s2) (val_loss s2) (val_psnr s2) (val_ssim s2) epoch,
              SaveOutputImages (b_outputs (last vv)) epoch True]
        else [])"
    using p3 out2 by (auto simp: checkpoint_policy_def Let_def split: if_splits)
  have vals2: "val_loss s2 = sum_list (map b_loss vv) / ?m"
    "val_psnr s2 = sum_list (map b_psnr vv) / ?m"
    "val_ssim s2 = sum_list (map b_ssim vv) / ?m"
    using s2 vv(2,3,4) bv by simp_all
  have trn2: "train_loss s2 = train_loss t / ?n" "train_psnr s2 = train_psnr t / ?n"
    "train_ssim s2 = train_ssim t / ?n"
    using s2 fu bv s1 by simp_all
  have w2: "weights s2 = weights s1" using s2 fu bv by simp
  have hist2: "train_losses s2 = train_losses st" "val_losses s2 = val_losses st"
    using s2 fu bv s1 ft bt by simp_all
  have same: "val_loss st' = val_loss s2" "val_psnr st' = val_psnr s2" "val_ssim st' = val_ssim s2"
    "train_loss st' = train_loss s2" "train_psnr st' = train_psnr s2" "train_ssim st' = train_ssim s2"
    "weights st' = weights s2" "opt st' = opt s2" "best_psnr st' = best_psnr s2"
    "outputs st' = outputs s2"
    using f3 f4 by simp_all
  have tr4: "trace st' = trace s3 @
       [PrintEpoch (epoch + 1) (train_loss st') (train_psnr st') (train_ssim st')
          (val_loss st') (val_psnr st') (val_ssim st')]"
    using f4 by simp
  have hist4: "epoch < length (train_losses st)" "epoch < length (val_losses st)"
    "train_losses st' = (train_losses st)[epoch := train_loss st']"
    "val_losses st' = (val_losses st)[epoch := val_loss st']"
    using f3 f4 hist2 by simp_all
  have trace_all: "trace st' = trace st @
       (if (epoch + 1) mod 20 = 0
        then map (\<lambda>v. SaveOutputImages (b_outputs v) epoch False) vv else []) @
       (if val_psnr st' > best_psnr st
        then [SaveModel (weights st') (opt st') (val_loss st') (val_psnr st') (val_ssim st') epoch,
              SaveOutputImages (b_outputs (last vv)) epoch True]
        else []) @
       [PrintEpoch (epoch + 1) (train_loss st') (train_psnr st') (train_ssim st')
          (val_loss st') (val_psnr st') (val_ssim st')]"
    unfolding tr4 tr3 tr2 same best2 by simp
  show ?thesis
    apply (rule exI [of _ t], rule exI [of _ s1], rule exI [of _ vv])
    apply (intro conjI)
    using t ne1 p1 ne2 apply simp_all [3]
    using same trn2 apply simp_all [3]
    using same w2 apply simp
    using ne2 apply simp
    using vv(1) bv apply simp
    using same vals2 apply simp_all [3]
    using same best2 apply simp
    using same out2 apply simp
    using trace_all apply simp
    using hist4 apply simp_all
    done
qed

lemma printed_images [simp]:
  "printed (map (\<lambda>v. SaveOutputImages (f v) e b) vs) = []"
  by (induction vs) (simp_all add: printed_def)

lemma checkpoints_images [simp]:
  "checkpoints (map (\<lambda>v. SaveOutputImages (f v) e b) vs) = []"
  by (induction vs) (simp_all add: checkpoints_def)

lemma best_images_periodic [simp]:
  "best_images (map (\<lambda>v. SaveOutputImages (f v) e False) vs) = []"
  by (induction vs) (simp_all add: best_images_def)

lemma periodic_images_periodic [simp]:
  "periodic_images (map (\<lambda>v. SaveOutputImages (f v) e False) vs) = map (\<lambda>v. (e, f v)) vs"
  by (induction vs) (simp_all add: periodic_images_def)

lemma trace_readings_simps [simp]:
  "printed [] = []" "checkpoints [] = []" "best_images [] = []" "periodic_images [] = []"
  "printed (SaveModel w g vl vp vs e # tr) = printed tr"
  "printed (SaveOutputImages outs e b # tr) = printed tr"
  "printed (PrintEpoch k a1 a2 a3 vl vp vs # tr) = (k, vp) # printed tr"
  "checkpoints (SaveModel w g vl vp vs e # tr) = (e, vp) # checkpoints tr"
  "checkpoints (SaveOutputImages outs e b # tr) = checkpoints tr"
  "checkpoints (PrintEpoch k a1 a2 a3 vl vp vs # tr) = checkpoints tr"
  "best_images (SaveModel w g vl vp vs e # tr) = best_images tr"
  "best_images (SaveOutputImages outs e True # tr) = (e, outs) # best_images tr"
  "best_images (SaveOutputImages outs e False # tr) = best_images tr"
  "best_images (PrintEpoch k a1 a2 a3 vl vp vs # tr) = best_images tr"
  "periodic_images (SaveModel w g vl vp vs e # tr) = periodic_images tr"
  "periodic_images (SaveOutputImages outs e True # tr) = periodic_images tr"
  "periodic_images (SaveOutputImages outs e False # tr) = (e, outs) # periodic_images tr"
  "periodic_images (PrintEpoch k a1 a2 a3 vl vp vs # tr) = periodic_images tr"
  by (simp_all add: printed_def checkpoints_def best_images_def periodic_images_def)

lemma epoch_body_readings:
  assumes "epoch_body c epoch st = Inr st'"
  shows "\<exists>new. trace st' = trace st @ new \<and> best_psnr st' = best_psnr st \<and>
           printed new = [(Suc epoch, val_psnr st')] \<and>
           checkpoints new = (if val_psnr st' > best_psnr st then [(epoch, val_psnr st')] else []) \<and>
           map fst (best_images new) = (if val_psnr st' > best_psnr st then [epoch] else [])"
proof -
  from epoch_body_summary [OF assms] obtain vv :: "batch_values list" where
    best: "best_psnr st' = best_psnr st" and
    tr: "trace st' = trace st @
       ((if (epoch + 1) mod 20 = 0
        then map (\<lambda>v. SaveOutputImages (b_outputs v) epoch False) vv else []) @
       (if val_psnr st' > best_psnr st
        then [SaveModel (weights st') (opt st') (val_loss st') (val_psnr st') (val_ssim st') epoch,
              SaveOutputImages (b_outputs (last vv)) epoch True]
        else []) @
       [PrintEpoch (epoch + 1) (train_loss st') (train_psnr st') (train_ssim st')
          (val_loss st') (val_psnr st') (val_ssim st')])"
    by auto
  show ?thesis
    by (rule exI, intro conjI, rule tr, rule best)
       (simp_all add: printed_append checkpoints_append best_images_append)
qed

lemma run_epochs_readings:
  "run_epochs c st es = Inr st' \<Longrightarrow>
     best_psnr st' = best_psnr st \<and>
     (\<exists>new. trace st' = trace st @ new \<and>
        map fst (printed new) = map Suc es \<and>
        map (\<lambda>(e, vp). (Suc e, vp)) (checkpoints new) =
          filter (\<lambda>(k, vp). vp > best_psnr st) (printed new) \<and>
        map fst (best_images new) = map fst (checkpoints new))"
proof (induction es arbitrary: st)
  case Nil
  then show ?case by simp
next
  case (Cons e es)
  from Cons.prems obtain s1 where
    s1: "epoch_body c e st = Inr s1" and rest: "run_epochs c s1 es = Inr st'"
    by (auto split: sum.splits)
  from epoch_body_readings [OF s1] obtain new1 where
    n1: "trace s1 = trace st @ new1" "best_psnr s1 = best_psnr st"
        "printed new1 = [(Suc e, val_psnr s1)]"
        "checkpoints new1 = (if val_psnr s1 > best_psnr st then [(e, val_psnr s1)] else [])"
        "map fst (best_images new1) = (if val_psnr s1 > best_psnr st then [e] else [])"
    by blast
  from Cons.IH [OF rest] obtain new2 where
    n2: "best_psnr st' = best_psnr s1" "trace st' = trace s1 @ new2"
        "map fst (printed new2) = map Suc es"
        "map (\<lambda>(e, vp). (Suc e, vp)) (checkpoints new2) =
           filter (\<lambda>(k, vp). vp > best_psnr s1) (printed new2)"
        "map fst (best_images new2) = map fst (checkpoints new2)"
    by blast
  have "trace st' = trace st @ (new1 @ new2)" using n1 n2 by simp
  moreover have "map fst (printed (new1 @ new2)) = map Suc (e # es)"
    using n1 n2 by (simp add: printed_append)
  moreover have "map (\<lambda>(e, vp). (Suc e, vp)) (checkpoints (new1 @ new2)) =
          filter (\<lambda>(k, vp). vp > best_psnr st) (printed (new1 @ new2))"
    using n1 n2 by (simp add: printed_append checkpoints_append)
  moreover have "map fst (best_images (new1 @ new2)) = map fst (checkpoints (new1 @ new2))"
    using n1 n2 by (simp add: best_images_append checkpoints_append)
  moreover have "best_psnr st' = best_psnr st" using n1 n2 by simp
  ultimately show ?case by blast
qed

lemma demo_two_epochs:
  "\<exists>st. run_epochs demo (demo_locals 2) [0..<2] = Inr st \<and>
     best_psnr st = 0 \<and>
     printed (trace st) = [(1, 20), (2, 18)] \<and>
     checkpoints (trace st) = [(0, 20), (1, 18)] \<and>
     map fst (best_images (trace st)) = [0, 1]"
  by (simp add: eval_defs demo_def upt_rec)

lemma sum_list_zip_squares:
  "length a = length b \<Longrightarrow>
     sum_list (map (\<lambda>(x, y). (x - y)\<^sup>2) (zip a b)) = (\<Sum>i<length a. (a ! i - b ! i)\<^sup>2)"
    for a b :: "real list"
proof (induction a b rule: list_induct2)
  case Nil
  then show ?case by simp
next
  case (Cons x xs y ys)
  have "(\<Sum>i<Suc (length xs). ((x # xs) ! i - (y # ys) ! i)\<^sup>2) =
          (x - y)\<^sup>2 + (\<Sum>i<length xs. (xs ! i - ys ! i)\<^sup>2)"
    by (simp add: sum.lessThan_Suc_shift del: sum.lessThan_Suc)
  with Cons show ?case by simp
qed

lemma mse_loss_mean:
  "length a = length b \<Longrightarrow>
     mse_loss a b = Inr ((\<Sum>i<length a. (a ! i - b ! i)\<^sup>2) / real (length a))"
  by (simp add: mse_loss_def sum_list_zip_squares)

lemma demo_twenty_epochs:
  "\<exists>st. train demo_two_batches 0 0 20 = Inr st \<and>
     periodic_images (trace st) = [(19, [3]), (19, [4])]"
  by (simp add: eval_defs demo_def demo_two_batches_def upt_rec periodic_images_append)

lemma epoch_body_images:
  assumes "epoch_body c epoch st = Inr st'"
  shows "\<exists>vv s1. train_phase c epoch st = Inr s1 \<and>
           map (batch_stats c False (weights s1)) (validation_loader c epoch) = map Inr vv \<and>
           periodic_images (trace st') = periodic_images (trace st) @
             (if (epoch + 1) mod 20 = 0 then map (\<lambda>v. (epoch, b_outputs v)) vv else []) \<and>
           best_images (trace st') = best_images (trace st) @
             (if val_psnr st' > best_psnr st then [(epoch, b_outputs (last vv))] else [])"
proof -
  from epoch_body_summary [OF assms] obtain s1 vv where
    s1: "train_phase c epoch st = Inr s1" and
    vv: "map (batch_stats c False (weights s1)) (validation_loader c epoch) = map Inr vv" and
    tr: "trace st' = trace st @
       (if (epoch + 1) mod 20 = 0
        then map (\<lambda>v. SaveOutputImages (b_outputs v) epoch False) vv else []) @
       (if val_psnr st' > best_psnr st
        then [SaveModel (weights st') (opt st') (val_loss st') (val_psnr st') (val_ssim st') epoch,
              SaveOutputImages (b_outputs (last vv)) epoch True]
        else []) @
       [PrintEpoch (epoch + 1) (train_loss st') (train_psnr st') (train_ssim st')
          (val_loss st') (val_psnr st') (val_ssim st')]"
    by blast
  have "periodic_images (trace st') = periodic_images (trace st) @
             (if (epoch + 1) mod 20 = 0 then map (\<lambda>v. (epoch, b_outputs v)) vv else [])"
    unfolding tr by (simp add: periodic_images_append)
  moreover have "best_images (trace st') = best_images (trace st) @
             (if val_psnr st' > best_psnr st then [(epoch, b_outputs (last vv))] else [])"
    unfolding tr by (simp add: best_images_append)
  ultimately show ?thesis using s1 vv by blast
qed

lemma run_epochs_periodic:
  "run_epochs c st es = Inr st' \<Longrightarrow>
     map fst (periodic_images (trace st')) =
       map fst (periodic_images (trace st)) @
       concat (map (\<lambda>e. if (e + 1) mod 20 = 0
                          then replicate (length (validation_loader c e)) e else []) es)"
proof (induction es arbitrary: st)
  case Nil
  then show ?case by simp
next
  case (Cons e es)
  from Cons.prems obtain s where
    s: "epoch_body c e st = Inr s" and rest: "run_epochs c s es = Inr st'"
    by (auto split: sum.splits)
  from epoch_body_images [OF s] obtain vv s1 where
    s1: "train_phase c e st = Inr s1" and
    vv: "map (batch_stats c False (weights s1)) (validation_loader c e) = map Inr vv" and
    p: "periodic_images (trace s) = periodic_images (trace st) @
             (if (e + 1) mod 20 = 0 then map (\<lambda>v. (e, b_outputs v)) vv else [])"
    by blast
  from vv have len: "length vv = length (validation_loader c e)"
    by (metis length_map)
  have "map fst (periodic_images (trace s)) = map fst (periodic_images (trace st)) @
          (if (e + 1) mod 20 = 0 then replicate (length (validation_loader c e)) e else [])"
    unfolding p using len by (simp add: comp_def map_replicate_const)
  with Cons.IH [OF rest] show ?case by simp
qed

lemma batch_stats_raises:
  "batch_stats c m w b = Inl x \<longleftrightarrow>
     forward c m w (fst b) = Inl x \<or>
     (\<exists>outs. forward c m w (fst b) = Inr outs \<and>
        (composed_loss c outs (snd b) = Inl x \<or>
         (\<exists>l. composed_loss c outs (snd b) = Inr l \<and>
            (psnr c outs (snd b) = Inl x \<or>
             (\<exists>p. psnr c outs (snd b) = Inr p \<and> ssim c outs (snd b) = Inl x)))))"
  by (auto simp: batch_stats_def split: sum.splits)

lemma train_batches_raise:
  assumes "train_batches c st pre = Inr s" and "batch_stats c (training st) (weights s) b = Inl x"
  shows "train_batches c st (pre @ b # post) = Inl (x, trace st)"
proof -
  from train_batches_frame [OF assms(1)] have "training s = training st" "trace s = trace st"
    by simp_all
  with assms show ?thesis
    by (simp add: train_batches_append train_batch_eq)
qed

lemma val_batches_raise:
  assumes "val_batches c epoch st pre = Inr s" and "batch_stats c (training st) (weights st) b = Inl x"
  shows "\<exists>imgs. val_batches c epoch st (pre @ b # post) =
           Inl (x, trace st @ map (\<lambda>outs. SaveOutputImages outs epoch False) imgs)"
proof -
  from val_batches_frame [OF assms(1)] have f: "training s = training st" "weights s = weights st"
    by simp_all
  from val_batches_values [OF assms(1)] obtain vals :: "batch_values list" where
    "trace s = trace st @
       (if (epoch + 1) mod 20 = 0 then map (\<lambda>v. SaveOutputImages (b_outputs v) epoch False) vals else [])"
    by blast
  then have tr: "trace s = trace st @ map (\<lambda>outs. SaveOutputImages outs epoch False)
       (if (epoch + 1) mod 20 = 0 then map b_outputs vals else [])"
    by (simp add: comp_def)
  from assms f have "val_batches c epoch st (pre @ b # post) = Inl (x, trace s)"
    by (simp add: val_batches_append val_batch_eq)
  then have "val_batches c epoch st (pre @ b # post) =
      Inl (x, trace st @ map (\<lambda>outs. SaveOutputImages outs epoch False)
         (if (epoch + 1) mod 20 = 0 then map b_outputs vals else []))"
    by (simp only: tr)
  then show ?thesis by (rule exI)
qed

lemma epoch_body_raise:
  assumes "(\<exists>pre b post s. train_loader c epoch = pre @ b # post \<and>
              train_batches c (begin_train st) pre = Inr s \<and>
              batch_stats c True (weights s) b = Inl x) \<or>
           (\<exists>s1 pre b post s. train_phase c epoch st = Inr s1 \<and>
              validation_loader c epoch = pre @ b # post \<and>
              val_batches c epoch (begin_validation s1) pre = Inr s \<and>
              batch_stats c False (weights s1) b = Inl x)"
  shows "\<exists>imgs. epoch_body c epoch st =
           Inl (x, trace st @ map (\<lambda>outs. SaveOutputImages outs epoch False) imgs)"
  using assms
proof (elim disjE exE conjE)
  fix pre b post s
  assume l: "train_loader c epoch = pre @ b # post"
    and p: "train_batches c (begin_train st) pre = Inr s"
    and x: "batch_stats c True (weights s) b = Inl x"
  have "training (begin_train st) = True" "trace (begin_train st) = trace st"
    by (simp_all add: begin_train_def)
  with train_batches_raise [OF p, of b x post] x l
  have "train_batches c (begin_train st) (train_loader c epoch) = Inl (x, trace st)"
    by simp
  then have "epoch_body c epoch st = Inl (x, trace st @ map (\<lambda>outs. SaveOutputImages outs epoch False) [])"
    by (simp add: epoch_body_def train_phase_def)
  then show ?thesis by blast
next
  fix s1 pre b post s
  assume s1: "train_phase c epoch st = Inr s1"
    and l: "validation_loader c epoch = pre @ b # post"
    and p: "val_batches c epoch (begin_validation s1) pre = Inr s"
    and x: "batch_stats c False (weights s1) b = Inl x"
  have bv: "training (begin_validation s1) = False" "weights (begin_validation s1) = weights s1"
    "trace (begin_validation s1) = trace s1"
    by (simp_all add: begin_validation_def)
  from train_phase_Inr [OF s1] obtain t where
    t: "train_batches c (begin_train st) (train_loader c epoch) = Inr t" and
    s1': "s1 = t\<lparr>train_loss := train_loss t / real (length (train_loader c epoch)),
                  train_psnr := train_psnr t / real (length (train_loader c epoch)),
                  train_ssim := train_ssim t / real (length (train_loader c epoch))\<rparr>"
    by blast
  from train_batches_frame [OF t] s1' have tr1: "trace s1 = trace st"
    by (simp add: begin_train_def)
  from val_batches_raise [OF p, of b x post] x bv l tr1 obtain imgs where
    "val_batches c epoch (begin_validation s1) (validation_loader c epoch) =
       Inl (x, trace st @ map (\<lambda>outs. SaveOutputImages outs epoch False) imgs)"
    by auto
  with s1 have "epoch_body c epoch st =
       Inl (x, trace st @ map (\<lambda>outs. SaveOutputImages outs epoch False) imgs)"
    by (simp add: epoch_body_def validation_phase_def)
  then show ?thesis by blast
qed

section \<open>The claims\<close>

text \<open>
  C6. A validation pass does not change the weights: after it they are the weights the
  training pass of the same epoch left. The optimizer state goes through \<open>zero_grad\<close>
  once per validation batch and through nothing else (no \<open>backward\<close>, no step); the
  weights the training pass leaves are the weights it started from, taken through one
  optimizer step per training batch.
\<close>

theorem validation_keeps_weights:
  assumes "train_phase c epoch st = Inr s1" and "validation_phase c epoch s1 = Inr s2"
  shows "weights s2 = weights s1 \<and>
         opt s2 = (zero_grad c ^^ length (validation_loader c epoch)) (opt s1) \<and>
         (opt s1, weights s1) = foldl (sgd_step c) (opt st, weights st) (train_loader c epoch)"
proof -
  from validation_phase_Inr [OF assms(2)] obtain s where
    s: "val_batches c epoch (begin_validation s1) (validation_loader c epoch) = Inr s" and
    s2: "s2 = s\<lparr>val_loss := val_loss s / real (length (validation_loader c epoch)),
                 val_psnr := val_psnr s / real (length (validation_loader c epoch)),
                 val_ssim := val_ssim s / real (length (validation_loader c epoch))\<rparr>"
    by blast
  from val_batches_frame [OF s] have "weights s = weights s1"
    by (simp add: begin_validation_def)
  with s2 have w: "weights s2 = weights s1" by simp
  from val_batches_opt [OF s] s2
  have o: "opt s2 = (zero_grad c ^^ length (validation_loader c epoch)) (opt s1)"
    by (simp add: begin_validation_def)
  from train_phase_Inr [OF assms(1)] obtain t where
    t: "train_batches c (begin_train st) (train_loader c epoch) = Inr t" and
    s1: "s1 = t\<lparr>train_loss := train_loss t / real (length (train_loader c epoch)),
                 train_psnr := train_psnr t / real (length (train_loader c epoch)),
                 train_ssim := train_ssim t / real (length (train_loader c epoch))\<rparr>"
    by blast
  from train_batches_weights [OF t] s1
  have "(opt s1, weights s1) = foldl (sgd_step c) (opt st, weights st) (train_loader c epoch)"
    by (simp add: begin_train_def)
  with w o show ?thesis by simp
qed

theorem validation_keeps_weights_witness:
  "\<exists>s1 s2. train_phase demo 0 (demo_locals 1) = Inr s1 \<and>
     validation_phase demo 0 s1 = Inr s2 \<and>
     weights s2 = weights s1 \<and>
     opt s2 = (zero_grad demo ^^ length (validation_loader demo 0)) (opt s1) \<and>
     (opt s1, weights s1) =
       foldl (sgd_step demo) (opt (demo_locals 1), weights (demo_locals 1)) (train_loader demo 0)"
proof -
  have "\<exists>s1 s2. train_phase demo 0 (demo_locals 1) = Inr s1 \<and> validation_phase demo 0 s1 = Inr s2"
    by (simp add: eval_defs demo_def)
  then obtain s1 s2 where
    h1: "train_phase demo 0 (demo_locals 1) = Inr s1" and
    h2: "validation_phase demo 0 s1 = Inr s2" by blast
  show ?thesis
    by (rule exI [of _ s1], rule exI [of _ s2])
       (use validation_keeps_weights [OF h1 h2] h1 h2 in blast)
qed



text \<open>
  C1. The claim asks for a checkpoint only when the validation PSNR exceeds the best one
  seen so far, and none after the second of two epochs with PSNR 20 then 18. The loop
  compares with \<open>best_psnr\<close>, which stays zero: in the small instance both epochs
  write a checkpoint.
\<close>

theorem checkpoint_after_lower_psnr:
  "printed (final_trace (train demo 0 0 2)) = [(1, 20), (2, 18)] \<and>
   checkpoints (final_trace (train demo 0 0 2)) = [(0, 20), (1, 18)]"
  using demo_two_epochs unfolding train_def demo_locals_def by (auto simp: final_trace_def)

text \<open>
  C2. The claim asks that \<open>best_psnr\<close> be the largest validation PSNR seen so far. After
  the two epochs of the small instance, with PSNR 20 and 18, it is still zero.
\<close>

theorem best_psnr_not_the_maximum:
  "printed (final_trace (train demo 0 0 2)) = [(1, 20), (2, 18)] \<and>
   map_option best_psnr (final_locals (train demo 0 0 2)) = Some 0"
  using demo_two_epochs unfolding train_def demo_locals_def
  by (auto simp: final_trace_def final_locals_def)

text \<open>
  C3. When an epoch completes, each of the three training statistics is the sum of the
  values of the training batches divided by the number of training batches, and each of
  the three validation statistics is the sum of the values of the validation batches
  divided by the number of validation batches. The value of a training batch is the one
  the collaborators give with the weights the loop has when it reaches that batch; the
  validation batches are all valued with the weights the training pass left.
\<close>

theorem epoch_stats_are_means:
  assumes "epoch_body c epoch st = Inr st'"
  shows "\<exists>tv vv s1.
     length tv = length (train_loader c epoch) \<and> 0 < length (train_loader c epoch) \<and>
     (\<forall>i<length (train_loader c epoch).
        \<exists>s. train_batches c (begin_train st) (take i (train_loader c epoch)) = Inr s \<and>
            batch_stats c True (weights s) (train_loader c epoch ! i) = Inr (tv ! i)) \<and>
     train_loss st' = sum_list (map b_loss tv) / real (length (train_loader c epoch)) \<and>
     train_psnr st' = sum_list (map b_psnr tv) / real (length (train_loader c epoch)) \<and>
     train_ssim st' = sum_list (map b_ssim tv) / real (length (train_loader c epoch)) \<and>
     train_phase c epoch st = Inr s1 \<and> 0 < length (validation_loader c epoch) \<and>
     map (batch_stats c False (weights s1)) (validation_loader c epoch) = map Inr vv \<and>
     val_loss st' = sum_list (map b_loss vv) / real (length (validation_loader c epoch)) \<and>
     val_psnr st' = sum_list (map b_psnr vv) / real (length (validation_loader c epoch)) \<and>
     val_ssim st' = sum_list (map b_ssim vv) / real (length (validation_loader c epoch))"
proof -
  from epoch_body_summary [OF assms] obtain t s1 vv where
    t: "train_batches c (begin_train st) (train_loader c epoch) = Inr t" and
    ne: "train_loader c epoch \<noteq> []" "validation_loader c epoch \<noteq> []" and
    s1: "train_phase c epoch st = Inr s1" and
    tr: "train_loss st' = train_loss t / real (length (train_loader c epoch))"
        "train_psnr st' = train_psnr t / real (length (train_loader c epoch))"
        "train_ssim st' = train_ssim t / real (length (train_loader c epoch))" and
    vv: "map (batch_stats c False (weights s1)) (validation_loader c epoch) = map Inr vv"
        "val_loss st' = sum_list (map b_loss vv) / real (length (validation_loader c epoch))"
        "val_psnr st' = sum_list (map b_psnr vv) / real (length (validation_loader c epoch))"
        "val_ssim st' = sum_list (map b_ssim vv) / real (length (validation_loader c epoch))"
    by blast
  from train_batches_sums [OF t] obtain tv where
    tv: "length tv = length (train_loader c epoch)"
        "\<forall>i<length (train_loader c epoch).
           \<exists>s. train_batches c (begin_train st) (take i (train_loader c epoch)) = Inr s \<and>
             batch_stats c (training (begin_train st)) (weights s) (train_loader c epoch ! i) =
               Inr (tv ! i)"
        "train_loss t = train_loss (begin_train st) + sum_list (map b_loss tv)"
        "train_psnr t = train_psnr (begin_train st) + sum_list (map b_psnr tv)"
        "train_ssim t = train_ssim (begin_train st) + sum_list (map b_ssim tv)"
    by blast
  have bt: "training (begin_train st) = True" "train_loss (begin_train st) = 0"
    "train_psnr (begin_train st) = 0" "train_ssim (begin_train st) = 0"
    by (simp_all add: begin_train_def)
  show ?thesis
    apply (rule exI [of _ tv], rule exI [of _ vv], rule exI [of _ s1])
    apply (intro conjI)
    using tv(1) ne apply simp_all [2]
    using tv(2) bt(1) apply simp
    using tr tv(3,4,5) bt apply simp_all [3]
    using s1 ne vv apply simp_all
    done
qed

text \<open>
  An epoch with three training batches and two validation batches whose values all
  differ: the per-batch values are the ones listed, and each statistic is their sum
  divided by three, or by two.
\<close>

theorem epoch_stats_are_means_witness:
  "\<exists>st'. epoch_body demo_many_batches 0 (demo_locals 1) = Inr st' \<and>
     length (train_loader demo_many_batches 0) = 3 \<and>
     length (validation_loader demo_many_batches 0) = 2 \<and>
     train_loss st' = 3 \<and> train_psnr st' = 2 \<and> train_ssim st' = 2 \<and>
     val_loss st' = 39 / 4 \<and> val_psnr st' = 4 \<and> val_ssim st' = 3 / 2 \<and>
     (\<exists>tv vv s1.
     map b_loss tv = [3 / 2, 3 / 2, 6] \<and> map b_psnr tv = [1, 2, 3] \<and> map b_ssim tv = [0, 1, 5] \<and>
     map b_loss vv = [6, 27 / 2] \<and> map b_psnr vv = [3, 5] \<and> map b_ssim vv = [1, 2] \<and>
     length tv = length (train_loader demo_many_batches 0) \<and>
     0 < length (train_loader demo_many_batches 0) \<and>
     (\<forall>i<length (train_loader demo_many_batches 0).
        \<exists>s. train_batches demo_many_batches (begin_train (demo_locals 1))
              (take i (train_loader demo_many_batches 0)) = Inr s \<and>
            batch_stats demo_many_batches True (weights s) (train_loader demo_many_batches 0 ! i) =
              Inr (tv ! i)) \<and>
     train_loss st' = sum_list (map b_loss tv) / real (length (train_loader demo_many_batches 0)) \<and>
     train_psnr st' = sum_list (map b_psnr tv) / real (length (train_loader demo_many_batches 0)) \<and>
     train_ssim st' = sum_list (map b_ssim tv) / real (length (train_loader demo_many_batches 0)) \<and>
     train_phase demo_many_batches 0 (demo_locals 1) = Inr s1 \<and>
     0 < length (validation_loader demo_many_batches 0) \<and>
     map (batch_stats demo_many_batches False (weights s1)) (validation_loader demo_many_batches 0) =
       map Inr vv \<and>
     val_loss st' = sum_list (map b_loss vv) / real (length (validation_loader demo_many_batches 0)) \<and>
     val_psnr st' = sum_list (map b_psnr vv) / real (length (validation_loader demo_many_batches 0)) \<and>
     val_ssim st' = sum_list (map b_ssim vv) / real (length (validation_loader demo_many_batches 0)))"
proof -
  have "\<exists>st'. epoch_body demo_many_batches 0 (demo_locals 1) = Inr st'"
    by (simp add: eval_defs demo_def demo_many_batches_def)
  then obtain st' where h: "epoch_body demo_many_batches 0 (demo_locals 1) = Inr st'" by blast
  have tl: "train_loader demo_many_batches 0 = [([1], [0]), ([2], [1]), ([3], [5])]"
    and vl: "validation_loader demo_many_batches 0 = [([3], [1]), ([5], [2])]"
    by (simp_all add: demo_many_batches_def demo_def)
  have bs: "batch_stats demo_many_batches m w ([1], [0]) =
              Inr \<lparr>b_outputs = [1], b_loss = 3 / 2, b_psnr = 1, b_ssim = 0\<rparr>"
           "batch_stats demo_many_batches m w ([2], [1]) =
              Inr \<lparr>b_outputs = [2], b_loss = 3 / 2, b_psnr = 2, b_ssim = 1\<rparr>"
           "batch_stats demo_many_batches m w ([3], [5]) =
              Inr \<lparr>b_outputs = [3], b_loss = 6, b_psnr = 3, b_ssim = 5\<rparr>"
           "batch_stats demo_many_batches m w ([3], [1]) =
              Inr \<lparr>b_outputs = [3], b_loss = 6, b_psnr = 3, b_ssim = 1\<rparr>"
           "batch_stats demo_many_batches m w ([5], [2]) =
              Inr \<lparr>b_outputs = [5], b_loss = 27 / 2, b_psnr = 5, b_ssim = 2\<rparr>"
    for m w
    by (simp_all add: batch_stats_def composed_loss_def mse_loss_def main_criterion_def
        perceptual_loss_weight_def demo_many_batches_def demo_def)
  from epoch_stats_are_means [OF h] obtain tv vv s1 where
    c: "length tv = length (train_loader demo_many_batches 0)"
       "0 < length (train_loader demo_many_batches 0)"
       "\<forall>i<length (train_loader demo_many_batches 0).
        \<exists>s. train_batches demo_many_batches (begin_train (demo_locals 1))
              (take i (train_loader demo_many_batches 0)) = Inr s \<and>
            batch_stats demo_many_batches True (weights s) (train_loader demo_many_batches 0 ! i) =
              Inr (tv ! i)"
       "train_loss st' = sum_list (map b_loss tv) / real (length (train_loader demo_many_batches 0))"
       "train_psnr st' = sum_list (map b_psnr tv) / real (length (train_loader demo_many_batches 0))"
       "train_ssim st' = sum_list (map b_ssim tv) / real (length (train_loader demo_many_batches 0))"
       "train_phase demo_many_batches 0 (demo_locals 1) = Inr s1"
       "0 < length (validation_loader demo_many_batches 0)"
       "map (batch_stats demo_many_batches False (weights s1)) (validation_loader demo_many_batches 0) =
          map Inr vv"
       "val_loss st' = sum_list (map b_loss vv) / real (length (validation_loader demo_many_batches 0))"
       "val_psnr st' = sum_list (map b_psnr vv) / real (length (validation_loader demo_many_batches 0))"
       "val_ssim st' = sum_list (map b_ssim vv) / real (length (validation_loader demo_many_batches 0))"
    by blast
  from c(9) have vv: "vv = [\<lparr>b_outputs = [3], b_loss = 6, b_psnr = 3, b_ssim = 1\<rparr>,
                           \<lparr>b_outputs = [5], b_loss = 27 / 2, b_psnr = 5, b_ssim = 2\<rparr>]"
    unfolding vl by (auto simp: bs)
  from c(1) have len: "length tv = 3" unfolding tl by simp
  from c(3) have "tv ! 0 = \<lparr>b_outputs = [1], b_loss = 3 / 2, b_psnr = 1, b_ssim = 0\<rparr>"
    unfolding tl by (auto simp: bs dest: spec [of _ 0])
  moreover from c(3) have "tv ! 1 = \<lparr>b_outputs = [2], b_loss = 3 / 2, b_psnr = 2, b_ssim = 1\<rparr>"
    unfolding tl by (auto simp: bs dest: spec [of _ 1])
  moreover from c(3) have "tv ! Suc (Suc 0) = \<lparr>b_outputs = [3], b_loss = 6, b_psnr = 3, b_ssim = 5\<rparr>"
    unfolding tl by (auto simp: bs dest: spec [of _ "Suc (Suc 0)"])
  ultimately have tv: "tv = [\<lparr>b_outputs = [1], b_loss = 3 / 2, b_psnr = 1, b_ssim = 0\<rparr>,
                             \<lparr>b_outputs = [2], b_loss = 3 / 2, b_psnr = 2, b_ssim = 1\<rparr>,
                             \<lparr>b_outputs = [3], b_loss = 6, b_psnr = 3, b_ssim = 5\<rparr>]"
    using len by (auto simp: list_eq_iff_nth_eq less_Suc_eq numeral_3_eq_3)
  have v1: "map b_loss tv = [3 / 2, 3 / 2, 6]" "map b_psnr tv = [1, 2, 3]" "map b_ssim tv = [0, 1, 5]"
    by (simp_all add: tv)
  have v2: "map b_loss vv = [6, 27 / 2]" "map b_psnr vv = [3, 5]" "map b_ssim vv = [1, 2]"
    by (simp_all add: vv)
  have n: "length (train_loader demo_many_batches 0) = 3"
    "length (validation_loader demo_many_batches 0) = 2"
    by (simp_all add: tl vl)
  have s: "train_loss st' = 3" "train_psnr st' = 2" "train_ssim st' = 2"
    "val_loss st' = 39 / 4" "val_psnr st' = 4" "val_ssim st' = 3 / 2"
    using c(4,5,6,10,11,12) unfolding n by (simp_all add: tv vv)
  show ?thesis
    by (rule exI [of _ st'], intro conjI, rule h, rule n, rule n, rule s, rule s, rule s, rule s,
        rule s, rule s, rule exI [of _ tv], rule exI [of _ vv], rule exI [of _ s1], intro conjI)
       (rule v1 v2 c)+
qed

text \<open>
  C10. The three sums of a pass are divided by the number of batches of its loader. With
  an empty training loader, or an empty validation loader after a training pass that went
  well, the epoch raises \<open>ZeroDivisionError\<close> and delivers no statistics; an epoch that
  completes had at least one batch in each loader; and with at least one batch the division
  is defined: a pass whose batches went well delivers its sums divided by their number.
\<close>

theorem empty_loader_raises:
  "(train_loader c epoch = [] \<longrightarrow> epoch_body c epoch st = Inl (ZeroDivisionError, trace st)) \<and>
   (train_phase c epoch st = Inr s1 \<and> validation_loader c epoch = [] \<longrightarrow>
      epoch_body c epoch st = Inl (ZeroDivisionError, trace s1)) \<and>
   (epoch_body c epoch st = Inr st' \<longrightarrow>
      train_loader c epoch \<noteq> [] \<and> validation_loader c epoch \<noteq> []) \<and>
   (train_batches c (begin_train st) (train_loader c epoch) = Inr t \<and> train_loader c epoch \<noteq> [] \<longrightarrow>
      train_phase c epoch st =
        Inr (t\<lparr>train_loss := train_loss t / real (length (train_loader c epoch)),
                train_psnr := train_psnr t / real (length (train_loader c epoch)),
                train_ssim := train_ssim t / real (length (train_loader c epoch))\<rparr>)) \<and>
   (val_batches c epoch (begin_validation s1) (validation_loader c epoch) = Inr u \<and>
      validation_loader c epoch \<noteq> [] \<longrightarrow>
      validation_phase c epoch s1 =
        Inr (u\<lparr>val_loss := val_loss u / real (length (validation_loader c epoch)),
                val_psnr := val_psnr u / real (length (validation_loader c epoch)),
                val_ssim := val_ssim u / real (length (validation_loader c epoch))\<rparr>))"
proof (intro conjI impI)
  assume "train_loader c epoch = []"
  then show "epoch_body c epoch st = Inl (ZeroDivisionError, trace st)"
    by (simp add: epoch_body_def train_phase_def py_div_def begin_train_def)
next
  assume "train_phase c epoch st = Inr s1 \<and> validation_loader c epoch = []"
  then show "epoch_body c epoch st = Inl (ZeroDivisionError, trace s1)"
    by (simp add: epoch_body_def validation_phase_def py_div_def begin_validation_def)
next
  assume h: "epoch_body c epoch st = Inr st'"
  from epoch_body_summary [OF h] show "train_loader c epoch \<noteq> []" by blast
  from epoch_body_summary [OF h] show "validation_loader c epoch \<noteq> []" by blast
next
  assume "train_batches c (begin_train st) (train_loader c epoch) = Inr t \<and> train_loader c epoch \<noteq> []"
  then show "train_phase c epoch st =
        Inr (t\<lparr>train_loss := train_loss t / real (length (train_loader c epoch)),
                train_psnr := train_psnr t / real (length (train_loader c epoch)),
                train_ssim := train_ssim t / real (length (train_loader c epoch))\<rparr>)"
    by (simp add: train_phase_def py_div_def Let_def)
next
  assume "val_batches c epoch (begin_validation s1) (validation_loader c epoch) = Inr u \<and>
      validation_loader c epoch \<noteq> []"
  then show "validation_phase c epoch s1 =
        Inr (u\<lparr>val_loss := val_loss u / real (length (validation_loader c epoch)),
                val_psnr := val_psnr u / real (length (validation_loader c epoch)),
                val_ssim := val_ssim u / real (length (validation_loader c epoch))\<rparr>)"
    by (simp add: validation_phase_def py_div_def Let_def)
qed

theorem empty_loader_raises_witness:
  "train_loader demo_no_training_data 0 = [] \<and>
   epoch_body demo_no_training_data 0 (demo_locals 1) = Inl (ZeroDivisionError, []) \<and>
   (\<exists>s1. train_phase demo_no_validation_data 0 (demo_locals 1) = Inr s1 \<and>
      validation_loader demo_no_validation_data 0 = [] \<and>
      epoch_body demo_no_validation_data 0 (demo_locals 1) = Inl (ZeroDivisionError, trace s1)) \<and>
   (\<exists>st'. epoch_body demo 0 (demo_locals 1) = Inr st' \<and>
      train_loader demo 0 \<noteq> [] \<and> validation_loader demo 0 \<noteq> []) \<and>
   (\<exists>t. train_batches demo (begin_train (demo_locals 1)) (train_loader demo 0) = Inr t \<and>
      train_loader demo 0 \<noteq> [] \<and>
      train_phase demo 0 (demo_locals 1) =
        Inr (t\<lparr>train_loss := train_loss t / real (length (train_loader demo 0)),
                train_psnr := train_psnr t / real (length (train_loader demo 0)),
                train_ssim := train_ssim t / real (length (train_loader demo 0))\<rparr>)) \<and>
   (\<exists>u. val_batches demo 0 (begin_validation (demo_locals 1)) (validation_loader demo 0) = Inr u \<and>
      validation_loader demo 0 \<noteq> [] \<and>
      validation_phase demo 0 (demo_locals 1) =
        Inr (u\<lparr>val_loss := val_loss u / real (length (validation_loader demo 0)),
                val_psnr := val_psnr u / real (length (validation_loader demo 0)),
                val_ssim := val_ssim u / real (length (validation_loader demo 0))\<rparr>))"
proof -
  have e1: "train_loader demo_no_training_data 0 = []"
    by (simp add: demo_no_training_data_def)
  have "\<exists>s1. train_phase demo_no_validation_data 0 (demo_locals 1) = Inr s1"
    by (simp add: eval_defs demo_def demo_no_validation_data_def)
  then obtain s1 where s1: "train_phase demo_no_validation_data 0 (demo_locals 1) = Inr s1"
    by blast
  have e2: "validation_loader demo_no_validation_data 0 = []"
    by (simp add: demo_no_validation_data_def)
  have "\<exists>st'. epoch_body demo 0 (demo_locals 1) = Inr st'"
    by (simp add: eval_defs demo_def)
  then obtain st' where st': "epoch_body demo 0 (demo_locals 1) = Inr st'" by blast
  have "\<exists>t. train_batches demo (begin_train (demo_locals 1)) (train_loader demo 0) = Inr t"
    by (simp add: eval_defs demo_def)
  then obtain t where t: "train_batches demo (begin_train (demo_locals 1)) (train_loader demo 0) = Inr t"
    by blast
  have "\<exists>u. val_batches demo 0 (begin_validation (demo_locals 1)) (validation_loader demo 0) = Inr u"
    by (simp add: eval_defs demo_def)
  then obtain u where
    u: "val_batches demo 0 (begin_validation (demo_locals 1)) (validation_loader demo 0) = Inr u"
    by blast
  have ne: "train_loader demo 0 \<noteq> []" "validation_loader demo 0 \<noteq> []"
    by (simp_all add: demo_def)
  have tr0: "trace (demo_locals 1) = []"
    by (simp add: demo_locals_def init_locals_def)
  note a = empty_loader_raises [of demo_no_training_data 0 "demo_locals 1"]
  note b = empty_loader_raises [of demo_no_validation_data 0 "demo_locals 1" s1]
  note d = empty_loader_raises [of demo 0 "demo_locals 1" "demo_locals 1" st' t u]
  show ?thesis
    using a e1 b s1 e2 d st' t u ne tr0 by auto
qed

text \<open>
  C4. With the criterion that \<open>__main__\<close> passes, for outputs and targets of the same
  size, the loss of a batch is the mean squared difference of outputs and targets plus one
  half of the mean squared difference of their features. The loss is a function of the
  outputs, the targets and the feature extractor alone: it reads no variable of the loop
  and assigns none.
\<close>

theorem composed_loss_formula:
  assumes "criterion c = main_criterion"
    and "length outs = length targets" and "outs \<noteq> []"
    and "vgg c outs = Inr fo" and "vgg c targets = Inr ft"
    and "length fo = length ft" and "fo \<noteq> []"
  shows "composed_loss c outs targets =
           Inr ((\<Sum>i<length outs. (outs ! i - targets ! i)\<^sup>2) / real (length outs) +
                0.5 * ((\<Sum>i<length fo. (fo ! i - ft ! i)\<^sup>2) / real (length fo)))"
  using assms
  by (simp add: composed_loss_def main_criterion_def mse_loss_mean perceptual_loss_weight_def)

theorem composed_loss_formula_witness:
  "criterion demo = main_criterion \<and> length [1, 2 :: real] = length [0, 0 :: real] \<and>
   [1, 2 :: real] \<noteq> [] \<and> vgg demo [1, 2] = Inr [1, 2] \<and> vgg demo [0, 0] = Inr [0, 0] \<and>
   composed_loss demo [1, 2] [0, 0] = Inr (15 / 4)"
proof -
  have h: "criterion demo = main_criterion" "vgg demo [1, 2] = Inr [1, 2]"
    "vgg demo [0, 0] = Inr [0, 0]"
    by (simp_all add: demo_def)
  have "composed_loss demo [1, 2] [0, 0] =
           Inr ((\<Sum>i<length [1, 2 :: real]. ([1, 2] ! i - [0, 0] ! i)\<^sup>2) / real (length [1, 2 :: real]) +
                0.5 * ((\<Sum>i<length [1, 2 :: real]. ([1, 2] ! i - [0, 0] ! i)\<^sup>2) / real (length [1, 2 :: real])))"
    by (rule composed_loss_formula [OF h(1) _ _ h(2) h(3)]) simp_all
  then have "composed_loss demo [1, 2] [0, 0] = Inr (15 / 4)"
    by (simp add: lessThan_Suc)
  with h show ?thesis by simp
qed

text \<open>
  C5, as the spec states it, asks for one periodic write in an epoch whose number is a
  multiple of 20, carrying the outputs of the last validation batch. The call stands inside
  the loop over the validation batches: with two validation batches, epoch 20 (index 19)
  writes twice, first the outputs of the first batch.
\<close>

theorem periodic_write_for_every_batch:
  "periodic_images (final_trace (train demo_two_batches 0 0 20)) = [(19, [3]), (19, [4])]"
  using demo_twenty_epochs by (auto simp: final_trace_def)

text \<open>
  C5, amended. Periodic writes happen exactly in the validation passes of the epochs whose
  number (counted from 1) is a multiple of 20: in such an epoch there is one write after
  every validation batch, in order, with the outputs of that batch and the index of the
  epoch (counted from 0); in any other epoch there is none. The only other image writes
  carry the best flag: one for every checkpoint, with the outputs of the last validation
  batch of that epoch.
\<close>

theorem image_writes:
  "(epoch_body c epoch st = Inr st' \<longrightarrow>
      (\<exists>vv s1. train_phase c epoch st = Inr s1 \<and>
           map (batch_stats c False (weights s1)) (validation_loader c epoch) = map Inr vv \<and>
           periodic_images (trace st') = periodic_images (trace st) @
             (if (epoch + 1) mod 20 = 0 then map (\<lambda>v. (epoch, b_outputs v)) vv else []) \<and>
           best_images (trace st') = best_images (trace st) @
             (if val_psnr st' > best_psnr st then [(epoch, b_outputs (last vv))] else []))) \<and>
   (train c model optimizer n_epoch = Inr fin \<longrightarrow>
      map fst (periodic_images (trace fin)) =
        concat (map (\<lambda>e. if (e + 1) mod 20 = 0
                           then replicate (length (validation_loader c e)) e else []) [0..<n_epoch]) \<and>
      map fst (best_images (trace fin)) = map fst (checkpoints (trace fin)))"
proof (intro conjI impI)
  assume "epoch_body c epoch st = Inr st'"
  then show "\<exists>vv s1. train_phase c epoch st = Inr s1 \<and>
           map (batch_stats c False (weights s1)) (validation_loader c epoch) = map Inr vv \<and>
           periodic_images (trace st') = periodic_images (trace st) @
             (if (epoch + 1) mod 20 = 0 then map (\<lambda>v. (epoch, b_outputs v)) vv else []) \<and>
           best_images (trace st') = best_images (trace st) @
             (if val_psnr st' > best_psnr st then [(epoch, b_outputs (last vv))] else [])"
    by (rule epoch_body_images)
next
  assume h: "train c model optimizer n_epoch = Inr fin"
  then have r: "run_epochs c (init_locals model optimizer n_epoch) [0..<n_epoch] = Inr fin"
    by (simp add: train_def)
  from run_epochs_periodic [OF r]
  show "map fst (periodic_images (trace fin)) =
        concat (map (\<lambda>e. if (e + 1) mod 20 = 0
                           then replicate (length (validation_loader c e)) e else []) [0..<n_epoch])"
    by (simp add: init_locals_def)
  from run_epochs_readings [OF r]
  show "map fst (best_images (trace fin)) = map fst (checkpoints (trace fin))"
    by (auto simp: init_locals_def)
qed

theorem image_writes_witness:
  "(\<exists>st'. epoch_body demo_two_batches 19 (demo_locals 20) = Inr st' \<and>
      periodic_images (trace st') = [(19, [3]), (19, [4])] \<and>
      best_images (trace st') = [(19, [4])]) \<and>
   (\<exists>fin. train demo_two_batches 0 0 20 = Inr fin \<and>
      map fst (periodic_images (trace fin)) = [19, 19] \<and>
      map fst (best_images (trace fin)) = map fst (checkpoints (trace fin)))"
proof -
  have "\<exists>st'. epoch_body demo_two_batches 19 (demo_locals 20) = Inr st' \<and> val_psnr st' = 7 / 2"
    by (simp add: eval_defs demo_def demo_two_batches_def)
  then obtain st' where
    h1: "epoch_body demo_two_batches 19 (demo_locals 20) = Inr st'" and vp: "val_psnr st' = 7 / 2"
    by blast
  from demo_twenty_epochs obtain fin where
    h2: "train demo_two_batches 0 0 20 = Inr fin" by blast
  note w = image_writes [of demo_two_batches 19 "demo_locals 20" st' 0 0 20 fin]
  from w h1 obtain vv s1 where
    s1: "train_phase demo_two_batches 19 (demo_locals 20) = Inr s1" and
    vv: "map (batch_stats demo_two_batches False (weights s1)) (validation_loader demo_two_batches 19) =
           map Inr vv" and
    p: "periodic_images (trace st') = periodic_images (trace (demo_locals 20)) @
             (if (19 + 1) mod 20 = (0::nat) then map (\<lambda>v. (19, b_outputs v)) vv else [])" and
    b: "best_images (trace st') = best_images (trace (demo_locals 20)) @
             (if val_psnr st' > best_psnr (demo_locals 20) then [(19, b_outputs (last vv))] else [])"
    by blast
  from vv have vv': "vv = [\<lparr>b_outputs = [3], b_loss = 0, b_psnr = 3, b_ssim = 1\<rparr>,
                           \<lparr>b_outputs = [4], b_loss = 0, b_psnr = 4, b_ssim = 1\<rparr>]"
    by (auto simp: demo_two_batches_def demo_def batch_stats_def composed_loss_def mse_loss_def
        main_criterion_def)
  have a1: "periodic_images (trace st') = [(19, [3]), (19, [4])]"
    using p vv' by (simp add: demo_locals_def init_locals_def periodic_images_def)
  have a2: "best_images (trace st') = [(19, [4])]"
    using b vv' vp by (simp add: demo_locals_def init_locals_def best_images_def)
  from w h2 have
    a3: "map fst (periodic_images (trace fin)) =
        concat (map (\<lambda>e. if (e + 1) mod 20 = 0
                           then replicate (length (validation_loader demo_two_batches e)) e else []) [0..<20])"
    and a4: "map fst (best_images (trace fin)) = map fst (checkpoints (trace fin))"
    by blast+
  from a3 have a5: "map fst (periodic_images (trace fin)) = [19, 19]"
    by (simp add: demo_two_batches_def upt_rec)
  show ?thesis
    by (intro conjI exI [of _ st'] exI [of _ fin]) (rule h1 a1 a2 h2 a5 a4)+
qed

text \<open>
  C8. Let the epochs before \<open>epoch\<close> go well, and let the model, the loss or a metric
  raise \<open>x\<close> on a batch of \<open>epoch\<close>, in the training pass or in the validation pass,
  after the batches before it went well (\<open>batch_stats\<close> is \<open>Inl x\<close> exactly when one of
  them raises \<open>x\<close> and those asked before it returned). Then the run ends with \<open>x\<close>: no later batch
  or epoch is tried, and nothing of this epoch is recorded (no printed statistics, no
  checkpoint, no best-flagged images; the trace holds the printed lines of the epochs
  before, and the histories are gone with the local variables).
\<close>

theorem exception_ends_run:
  assumes "run_epochs c (init_locals model optimizer n_epoch) [0..<epoch] = Inr st"
    and "epoch < n_epoch"
    and "(\<exists>pre b post s. train_loader c epoch = pre @ b # post \<and>
              train_batches c (begin_train st) pre = Inr s \<and>
              batch_stats c True (weights s) b = Inl x) \<or>
         (\<exists>s1 pre b post s. train_phase c epoch st = Inr s1 \<and>
              validation_loader c epoch = pre @ b # post \<and>
              val_batches c epoch (begin_validation s1) pre = Inr s \<and>
              batch_stats c False (weights s1) b = Inl x)"
  shows "\<exists>tr. train c model optimizer n_epoch = Inl (x, tr) \<and>
           printed tr = printed (trace st) \<and>
           checkpoints tr = checkpoints (trace st) \<and>
           best_images tr = best_images (trace st) \<and>
           map fst (printed tr) = map Suc [0..<epoch]"
proof -
  from epoch_body_raise [OF assms(3)] obtain imgs where
    e: "epoch_body c epoch st =
          Inl (x, trace st @ map (\<lambda>outs. SaveOutputImages outs epoch False) imgs)"
    by blast
  let ?tr = "trace st @ map (\<lambda>outs. SaveOutputImages outs epoch False) imgs"
  have "[0..<epoch + (n_epoch - epoch)] = [0..<epoch] @ [epoch..<epoch + (n_epoch - epoch)]"
    by (rule upt_add_eq_append) simp
  with assms(2) have "[0..<n_epoch] = [0..<epoch] @ epoch # [Suc epoch..<n_epoch]"
    by (simp add: upt_conv_Cons)
  with assms(1) e have run: "train c model optimizer n_epoch = Inl (x, ?tr)"
    by (simp add: train_def run_epochs_append)
  from run_epochs_readings [OF assms(1)]
  have "map fst (printed (trace st)) = map Suc [0..<epoch]"
    by (auto simp: init_locals_def)
  then have "printed ?tr = printed (trace st) \<and> checkpoints ?tr = checkpoints (trace st) \<and>
           best_images ?tr = best_images (trace st) \<and> map fst (printed ?tr) = map Suc [0..<epoch]"
    by (simp add: printed_append checkpoints_append best_images_append)
  with run show ?thesis by blast
qed

theorem exception_ends_run_witness:
  "\<exists>st. run_epochs demo_failing (init_locals 0 0 2) [0..<1] = Inr st \<and> (1::nat) < 2 \<and>
     (\<exists>s1. train_phase demo_failing 1 st = Inr s1 \<and>
        validation_loader demo_failing 1 = [] @ ([18], [18]) # [] \<and>
        val_batches demo_failing 1 (begin_validation s1) [] = Inr (begin_validation s1) \<and>
        batch_stats demo_failing False (weights s1) ([18], [18]) = Inl (Raised ''out of memory'')) \<and>
     (\<exists>tr. train demo_failing 0 0 2 = Inl (Raised ''out of memory'', tr) \<and>
           printed tr = printed (trace st) \<and>
           checkpoints tr = checkpoints (trace st) \<and>
           best_images tr = best_images (trace st) \<and>
           map fst (printed tr) = map Suc [0..<1])"
proof -
  have "\<exists>st s1. run_epochs demo_failing (init_locals 0 0 2) [0..<1] = Inr st \<and>
          train_phase demo_failing 1 st = Inr s1"
    by (simp add: eval_defs demo_def demo_failing_def)
  then obtain st s1 where
    h1: "run_epochs demo_failing (init_locals 0 0 2) [0..<1] = Inr st" and
    h2: "train_phase demo_failing 1 st = Inr s1" by blast
  have h3: "validation_loader demo_failing 1 = [] @ ([18], [18]) # []"
    by (simp add: demo_failing_def demo_def)
  have h4: "val_batches demo_failing 1 (begin_validation s1) [] = Inr (begin_validation s1)"
    by simp
  have h5: "batch_stats demo_failing False (weights s1) ([18], [18]) = Inl (Raised ''out of memory'')"
    by (simp add: batch_stats_def demo_failing_def demo_def)
  have h6: "(1::nat) < 2" by simp
  have d: "(\<exists>pre b post s. train_loader demo_failing 1 = pre @ b # post \<and>
              train_batches demo_failing (begin_train st) pre = Inr s \<and>
              batch_stats demo_failing True (weights s) b = Inl (Raised ''out of memory'')) \<or>
         (\<exists>s1 pre b post s. train_phase demo_failing 1 st = Inr s1 \<and>
              validation_loader demo_failing 1 = pre @ b # post \<and>
              val_batches demo_failing 1 (begin_validation s1) pre = Inr s \<and>
              batch_stats demo_failing False (weights s1) b = Inl (Raised ''out of memory''))"
    using h2 h3 h4 h5 by blast
  note w = exception_ends_run [OF h1 h6 d]
  show ?thesis
    by (rule exI [of _ st], intro conjI, rule h1, rule h6, rule exI [of _ s1],
        intro conjI, rule h2, rule h3, rule h4, rule h5, rule w)
qed

end
